theory Spec2Isabelle
  imports Complex_Main "HOL-Library.Word"
begin

unbundle bit_operations_syntax

section \<open>Face tags of a brush node (BrushNode.cpp, lines 530-558)\<close>

text \<open>
  \<^verbatim>\<open>TagType::Type\<close> is an unsigned machine integer used as a bit mask; its width
  is left open (\<open>'a word\<close>).  \<^verbatim>\<open>TagType::AnyType\<close> is declared in a header that
  is not among the sources; the source comments it as "set all bits to 1", which is the
  word \<open>- 1\<close>.
\<close>

definition AnyType :: "'a::len word" where
  "AnyType = - 1"

text \<open>
  The faces of the brush are the list \<^verbatim>\<open>m_brush.faces()\<close>, in order.  What a face
  answers to \<^verbatim>\<open>tagMask()\<close>, \<^verbatim>\<open>hasAnyTag()\<close> and \<^verbatim>\<open>hasTag(mask)\<close> is code of
  \<^verbatim>\<open>Taggable\<close>, taken as a parameter (\<open>faceTagMask\<close>, \<open>hasAnyTag\<close>, \<open>hasTag\<close>);
  the mask argument keeps its name \<open>tagMask\<close>.

  \<^verbatim>\<open>
  TagType::Type sharedFaceTags = TagType::AnyType; // set all bits to 1
  for (const auto* face : m_brush.faces()) {
      sharedFaceTags &= face->tagMask();
  }
  return (sharedFaceTags & tagMask) != 0;
  \<close>
\<close>

definition sharedFaceTags :: "('f \<Rightarrow> 'a::len word) \<Rightarrow> 'f list \<Rightarrow> 'a word" where
  "sharedFaceTags faceTagMask faces = fold (\<lambda>face shared. shared AND faceTagMask face) faces AnyType"

definition allFacesHaveAnyTagInMask :: "('f \<Rightarrow> 'a::len word) \<Rightarrow> 'f list \<Rightarrow> 'a word \<Rightarrow> bool" where
  "allFacesHaveAnyTagInMask faceTagMask faces tagMask = (sharedFaceTags faceTagMask faces AND tagMask \<noteq> 0)"

text \<open>
  \<^verbatim>\<open>
  for (const auto* face : m_brush.faces()) {
      if (face->hasAnyTag()) { return true; }
  }
  return false;
  \<close>
\<close>

fun anyFaceHasAnyTag :: "('f \<Rightarrow> bool) \<Rightarrow> 'f list \<Rightarrow> bool" where
  "anyFaceHasAnyTag hasAnyTag [] = False"
| "anyFaceHasAnyTag hasAnyTag (face # faces) =
     (if hasAnyTag face then True else anyFaceHasAnyTag hasAnyTag faces)"

fun anyFacesHaveAnyTagInMask :: "('f \<Rightarrow> 'a::len word \<Rightarrow> bool) \<Rightarrow> 'f list \<Rightarrow> 'a word \<Rightarrow> bool" where
  "anyFacesHaveAnyTagInMask hasTag [] tagMask = False"
| "anyFacesHaveAnyTagInMask hasTag (face # faces) tagMask =
     (if hasTag face tagMask then True else anyFacesHaveAnyTagInMask hasTag faces tagMask)"


section \<open>The brush node: scoped notifications and caches (BrushNode.cpp)\<close>

text \<open>
  A \<^verbatim>\<open>Brush\<close> is a value owned by its node (\<^verbatim>\<open>Brush m_brush\<close>), holding a
  back-pointer to the node (set by \<^verbatim>\<open>setNode\<close>) beside its faces and geometry, which
  stay opaque here (\<open>'g\<close>).  Nodes live at addresses.
\<close>

type_synonym addr = nat

record 'g Brush =
  m_node :: "addr option"
  m_geometry :: 'g

text \<open>
  Modelled from the spec: \<^verbatim>\<open>Brush::setNode\<close> is code of Brush.cpp, which is not among
  the sources.  Section 3 of the specification: the owning node "wraps exactly one Brush
  (never shared)"; \<open>setNode\<close> stores the address of the owner in the brush.
\<close>

definition setNode :: "addr \<Rightarrow> 'g Brush \<Rightarrow> 'g Brush" where
  "setNode this brush = brush\<lparr>m_node := Some this\<rparr>"

text \<open>
  What a call does to the node is recorded in \<open>steps\<close>, in order: the construction and the
  destruction of each scoped guard, the run of the brush mutation, and the two
  invalidations.  The render-geometry cache (\<^verbatim>\<open>m_brushRendererBrushCache\<close>) and the
  issue cache each have a validity flag.
\<close>

datatype guard = NotifyNodeChange | NotifyPhysicalBoundsChange

datatype step =
    Acquired guard
  | Released guard
  | BrushMutation
  | InvalidateIssues
  | InvalidateVertexCache

record 'g BrushNode =
  m_brush :: "'g Brush"
  vertexCacheValid :: bool
  issuesValid :: bool
  steps :: "step list"

definition logStep :: "step \<Rightarrow> 'g BrushNode \<Rightarrow> 'g BrushNode" where
  "logStep s n = n\<lparr>steps := steps n @ [s]\<rparr>"

text \<open>
  \<^verbatim>\<open>void BrushNode::invalidateVertexCache() { m_brushRendererBrushCache->invalidateVertexCache(); }\<close>
  and \<^verbatim>\<open>Node::invalidateIssues()\<close>: the cache's validity is dropped.
\<close>

definition invalidateVertexCache :: "'g BrushNode \<Rightarrow> 'g BrushNode" where
  "invalidateVertexCache n = logStep InvalidateVertexCache (n\<lparr>vertexCacheValid := False\<rparr>)"

definition invalidateIssues :: "'g BrushNode \<Rightarrow> 'g BrushNode" where
  "invalidateIssues n = logStep InvalidateIssues (n\<lparr>issuesValid := False\<rparr>)"

text \<open>
  Modelled from the spec: the guard classes \<^verbatim>\<open>NotifyNodeChange\<close> and
  \<^verbatim>\<open>NotifyPhysicalBoundsChange\<close> are declared in Node.h, which is not among the
  sources.  Section 4.6 of the specification: a scoped guard notifies when it is
  acquired, before the mutation, and when it is released, after it; as a local object its
  release runs when the scope is left, by a return or by an exception.  The outcome of
  the body is \<open>Inl e\<close> for an exception \<open>e\<close> that leaves the scope and \<open>Inr r\<close> for a
  return.
\<close>

definition scoped :: "guard \<Rightarrow> ('g BrushNode \<Rightarrow> 'x \<times> 'g BrushNode) \<Rightarrow> 'g BrushNode \<Rightarrow> 'x \<times> 'g BrushNode" where
  "scoped g body n =
     (case body (logStep (Acquired g) n) of
        (outcome, n') \<Rightarrow> (outcome, logStep (Released g) n'))"

text \<open>
  The member functions of \<^verbatim>\<open>Brush\<close> (Brush.cpp) are not among the sources: each is a
  parameter \<open>brush_...\<close> that, from the brush, gives the outcome (an exception or the
  returned value) and the brush it leaves behind.  They act on the brush; a call that
  such a function might make on the owning node through the back-pointer would be code
  outside the sources and is not part of this model.
\<close>

type_synonym ('g, 'e, 'r) brush_mutation = "'g Brush \<Rightarrow> ('e + 'r) \<times> 'g Brush"

definition mutateBrush :: "('g, 'e, 'r) brush_mutation \<Rightarrow> 'g BrushNode \<Rightarrow> ('e + 'r) \<times> 'g BrushNode" where
  "mutateBrush f n =
     (case f (m_brush n) of
        (outcome, brush') \<Rightarrow> (outcome, logStep BrushMutation (n\<lparr>m_brush := brush'\<rparr>)))"

text \<open>
  \<^verbatim>\<open>
  void BrushNode::setBrush(Brush brush) {
      const NotifyNodeChange nodeChange(this);
      const NotifyPhysicalBoundsChange boundsChange(this);
      m_brush = std::move(brush);
      m_brush.setNode(this);
      invalidateIssues();
      invalidateVertexCache();
  }
  \<close>
\<close>

definition setBrush :: "addr \<Rightarrow> 'g Brush \<Rightarrow> 'g BrushNode \<Rightarrow> ('e + unit) \<times> 'g BrushNode" where
  "setBrush this brush =
     scoped NotifyNodeChange (scoped NotifyPhysicalBoundsChange (\<lambda>n.
       (Inr (), invalidateVertexCache (invalidateIssues
                  (logStep BrushMutation (n\<lparr>m_brush := setNode this brush\<rparr>))))))"

text \<open>
  \<^verbatim>\<open>
  void BrushNode::setFaces(const vm::bbox3& worldBounds, const std::vector<BrushFace*>& faces) {
      const NotifyNodeChange nodeChange(this);
      const NotifyPhysicalBoundsChange boundsChange(this);
      m_brush.setFaces(worldBounds, faces);
      invalidateIssues();
      invalidateVertexCache();
  }
  \<close>
  An exception of \<^verbatim>\<open>m_brush.setFaces\<close> leaves the function before the invalidations.
\<close>

definition setFaces :: "('bb \<Rightarrow> 'f list \<Rightarrow> ('g, 'e, unit) brush_mutation) \<Rightarrow> 'bb \<Rightarrow> 'f list
    \<Rightarrow> 'g BrushNode \<Rightarrow> ('e + unit) \<times> 'g BrushNode" where
  "setFaces brush_setFaces worldBounds faces =
     scoped NotifyNodeChange (scoped NotifyPhysicalBoundsChange (\<lambda>n.
       (case mutateBrush (brush_setFaces worldBounds faces) n of
          (Inl e, n') \<Rightarrow> (Inl e, n')
        | (Inr u, n') \<Rightarrow> (Inr u, invalidateVertexCache (invalidateIssues n')))))"

text \<open>
  The other mutating member functions have one shape:
  \<^verbatim>\<open>
  std::vector<vm::vec3> BrushNode::moveVertices(const vm::bbox3& worldBounds,
          const std::vector<vm::vec3>& vertexPositions, const vm::vec3& delta, const bool uvLock) {
      const NotifyNodeChange nodeChange(this);
      const NotifyPhysicalBoundsChange boundsChange(this);
      return m_brush.moveVertices(worldBounds, vertexPositions, delta, uvLock);
  }
  \<close>
\<close>

definition moveVertices :: "('bb \<Rightarrow> 'v list \<Rightarrow> 'v \<Rightarrow> bool \<Rightarrow> ('g, 'e, 'v list) brush_mutation)
    \<Rightarrow> 'bb \<Rightarrow> 'v list \<Rightarrow> 'v \<Rightarrow> bool \<Rightarrow> 'g BrushNode \<Rightarrow> ('e + 'v list) \<times> 'g BrushNode" where
  "moveVertices brush_moveVertices worldBounds vertexPositions delta uvLock =
     scoped NotifyNodeChange (scoped NotifyPhysicalBoundsChange
       (mutateBrush (brush_moveVertices worldBounds vertexPositions delta uvLock)))"

definition addVertex :: "('bb \<Rightarrow> 'v \<Rightarrow> ('g, 'e, 'bv) brush_mutation)
    \<Rightarrow> 'bb \<Rightarrow> 'v \<Rightarrow> 'g BrushNode \<Rightarrow> ('e + 'bv) \<times> 'g BrushNode" where
  "addVertex brush_addVertex worldBounds position =
     scoped NotifyNodeChange (scoped NotifyPhysicalBoundsChange
       (mutateBrush (brush_addVertex worldBounds position)))"

definition removeVertices :: "('bb \<Rightarrow> 'v list \<Rightarrow> ('g, 'e, unit) brush_mutation)
    \<Rightarrow> 'bb \<Rightarrow> 'v list \<Rightarrow> 'g BrushNode \<Rightarrow> ('e + unit) \<times> 'g BrushNode" where
  "removeVertices brush_removeVertices worldBounds vertexPositions =
     scoped NotifyNodeChange (scoped NotifyPhysicalBoundsChange
       (mutateBrush (brush_removeVertices worldBounds vertexPositions)))"

definition snapVertices :: "('bb \<Rightarrow> 'fl \<Rightarrow> bool \<Rightarrow> ('g, 'e, unit) brush_mutation)
    \<Rightarrow> 'bb \<Rightarrow> 'fl \<Rightarrow> bool \<Rightarrow> 'g BrushNode \<Rightarrow> ('e + unit) \<times> 'g BrushNode" where
  "snapVertices brush_snapVertices worldBounds snapToF uvLock =
     scoped NotifyNodeChange (scoped NotifyPhysicalBoundsChange
       (mutateBrush (brush_snapVertices worldBounds snapToF uvLock)))"

definition moveEdges :: "('bb \<Rightarrow> 'sg list \<Rightarrow> 'v \<Rightarrow> bool \<Rightarrow> ('g, 'e, 'sg list) brush_mutation)
    \<Rightarrow> 'bb \<Rightarrow> 'sg list \<Rightarrow> 'v \<Rightarrow> bool \<Rightarrow> 'g BrushNode \<Rightarrow> ('e + 'sg list) \<times> 'g BrushNode" where
  "moveEdges brush_moveEdges worldBounds edgePositions delta uvLock =
     scoped NotifyNodeChange (scoped NotifyPhysicalBoundsChange
       (mutateBrush (brush_moveEdges worldBounds edgePositions delta uvLock)))"

definition moveFaces :: "('bb \<Rightarrow> 'pg list \<Rightarrow> 'v \<Rightarrow> bool \<Rightarrow> ('g, 'e, 'pg list) brush_mutation)
    \<Rightarrow> 'bb \<Rightarrow> 'pg list \<Rightarrow> 'v \<Rightarrow> bool \<Rightarrow> 'g BrushNode \<Rightarrow> ('e + 'pg list) \<times> 'g BrushNode" where
  "moveFaces brush_moveFaces worldBounds facePositions delta uvLock =
     scoped NotifyNodeChange (scoped NotifyPhysicalBoundsChange
       (mutateBrush (brush_moveFaces worldBounds facePositions delta uvLock)))"

text \<open>
  \<^verbatim>\<open>
  void BrushNode::intersect(const vm::bbox3& worldBounds, const BrushNode* brush) {
      const NotifyNodeChange nodeChange(this);
      const NotifyPhysicalBoundsChange boundsChange(this);
      m_brush.intersect(worldBounds, brush->m_brush);
  }
  \<close>
  Here \<open>brush\<close> is the node the pointer refers to; only its \<open>m_brush\<close> is read.
\<close>

definition intersect :: "('bb \<Rightarrow> 'g Brush \<Rightarrow> ('g, 'e, unit) brush_mutation)
    \<Rightarrow> 'bb \<Rightarrow> 'g BrushNode \<Rightarrow> 'g BrushNode \<Rightarrow> ('e + unit) \<times> 'g BrushNode" where
  "intersect brush_intersect worldBounds brush =
     scoped NotifyNodeChange (scoped NotifyPhysicalBoundsChange
       (mutateBrush (brush_intersect worldBounds (m_brush brush))))"

definition findIntegerPlanePoints :: "('bb \<Rightarrow> ('g, 'e, unit) brush_mutation)
    \<Rightarrow> 'bb \<Rightarrow> 'g BrushNode \<Rightarrow> ('e + unit) \<times> 'g BrushNode" where
  "findIntegerPlanePoints brush_findIntegerPlanePoints worldBounds =
     scoped NotifyNodeChange (scoped NotifyPhysicalBoundsChange
       (mutateBrush (brush_findIntegerPlanePoints worldBounds)))"

text \<open>
  \<^verbatim>\<open>Node::transform\<close> dispatches to
  \<^verbatim>\<open>
  void BrushNode::doTransform(const vm::mat4x4& transformation, const bool lockTextures,
                              const vm::bbox3& worldBounds) {
      const NotifyNodeChange nodeChange(this);
      const NotifyPhysicalBoundsChange boundsChange(this);
      m_brush.transform(transformation, lockTextures, worldBounds);
  }
  \<close>
\<close>

definition doTransform :: "('m \<Rightarrow> bool \<Rightarrow> 'bb \<Rightarrow> ('g, 'e, unit) brush_mutation)
    \<Rightarrow> 'm \<Rightarrow> bool \<Rightarrow> 'bb \<Rightarrow> 'g BrushNode \<Rightarrow> ('e + unit) \<times> 'g BrushNode" where
  "doTransform brush_transform transformation lockTextures worldBounds =
     scoped NotifyNodeChange (scoped NotifyPhysicalBoundsChange
       (mutateBrush (brush_transform transformation lockTextures worldBounds)))"

text \<open>
  The steps a call has added to the node, and what it means for a guard to fire once
  around the mutation: one acquisition, before the mutation runs, and one release, after
  it.
\<close>

definition emitted :: "'g BrushNode \<Rightarrow> 'g BrushNode \<Rightarrow> step list" where
  "emitted n n' = drop (length (steps n)) (steps n')"

definition firedOnceAround :: "guard \<Rightarrow> step list \<Rightarrow> bool" where
  "firedOnceAround g ss \<longleftrightarrow>
     count_list ss (Acquired g) = 1 \<and> count_list ss (Released g) = 1
     \<and> count_list ss BrushMutation = 1
     \<and> Acquired g \<in> set (takeWhile (\<lambda>s. s \<noteq> BrushMutation) ss)
     \<and> Released g \<in> set (dropWhile (\<lambda>s. s \<noteq> BrushMutation) ss)"

definition bracketed :: "'g BrushNode \<Rightarrow> 'g BrushNode \<Rightarrow> bool" where
  "bracketed n n' \<longleftrightarrow>
     steps n' = steps n @ emitted n n'
     \<and> firedOnceAround NotifyNodeChange (emitted n n')
     \<and> firedOnceAround NotifyPhysicalBoundsChange (emitted n n')"


subsection \<open>Read-only queries\<close>

text \<open>
  The \<^verbatim>\<open>const\<close> member functions hand the question to the brush and return its
  answer, as in
  \<^verbatim>\<open>
  size_t BrushNode::faceCount() const { return m_brush.faceCount(); }
  bool BrushNode::closed() const { return m_brush.closed(); }
  bool BrushNode::canMoveVertices(const vm::bbox3& worldBounds,
          const std::vector<vm::vec3>& vertices, const vm::vec3& delta) const {
      return m_brush.canMoveVertices(worldBounds, vertices, delta);
  }
  \<close>
  They are written in the state-passing style of the mutations, so that what they do to
  the node can be stated.  The brush's own query is the parameter \<open>brush_...\<close>.
  \<^verbatim>\<open>closed\<close> is named \<open>closed_brush\<close> here; the overloads of \<^verbatim>\<open>findFace\<close> (by
  texture name, normal, boundary plane, vertex polygon with epsilon, candidate polygons
  with epsilon) and of \<^verbatim>\<open>hasFace\<close> (a polygon, or three to five points, with epsilon)
  have this same shape and are one definition each, over any type of key or face.
  Where the source names an argument like a member function (\<^verbatim>\<open>vertices\<close>,
  \<^verbatim>\<open>vertexPositions\<close>), the argument is \<open>vertexList\<close> here.
\<close>

definition constQuery :: "('g Brush \<Rightarrow> 'r) \<Rightarrow> 'g BrushNode \<Rightarrow> 'r \<times> 'g BrushNode" where
  "constQuery brush_query n = (brush_query (m_brush n), n)"

definition faceCount :: "('g Brush \<Rightarrow> nat) \<Rightarrow> 'g BrushNode \<Rightarrow> nat \<times> 'g BrushNode" where
  "faceCount brush_faceCount = constQuery brush_faceCount"

definition faces :: "('g Brush \<Rightarrow> 'f list) \<Rightarrow> 'g BrushNode \<Rightarrow> 'f list \<times> 'g BrushNode" where
  "faces brush_faces = constQuery brush_faces"

definition vertexCount :: "('g Brush \<Rightarrow> nat) \<Rightarrow> 'g BrushNode \<Rightarrow> nat \<times> 'g BrushNode" where
  "vertexCount brush_vertexCount = constQuery brush_vertexCount"

definition vertices :: "('g Brush \<Rightarrow> 'bv list) \<Rightarrow> 'g BrushNode \<Rightarrow> 'bv list \<times> 'g BrushNode" where
  "vertices brush_vertices = constQuery brush_vertices"

definition vertexPositions :: "('g Brush \<Rightarrow> 'v list) \<Rightarrow> 'g BrushNode \<Rightarrow> 'v list \<times> 'g BrushNode" where
  "vertexPositions brush_vertexPositions = constQuery brush_vertexPositions"

definition edgeCount :: "('g Brush \<Rightarrow> nat) \<Rightarrow> 'g BrushNode \<Rightarrow> nat \<times> 'g BrushNode" where
  "edgeCount brush_edgeCount = constQuery brush_edgeCount"

definition edges :: "('g Brush \<Rightarrow> 'be list) \<Rightarrow> 'g BrushNode \<Rightarrow> 'be list \<times> 'g BrushNode" where
  "edges brush_edges = constQuery brush_edges"

definition closed_brush :: "('g Brush \<Rightarrow> bool) \<Rightarrow> 'g BrushNode \<Rightarrow> bool \<times> 'g BrushNode" where
  "closed_brush brush_closed = constQuery brush_closed"

definition fullySpecified :: "('g Brush \<Rightarrow> bool) \<Rightarrow> 'g BrushNode \<Rightarrow> bool \<times> 'g BrushNode" where
  "fullySpecified brush_fullySpecified = constQuery brush_fullySpecified"

definition containsPoint :: "('v \<Rightarrow> 'g Brush \<Rightarrow> bool) \<Rightarrow> 'v \<Rightarrow> 'g BrushNode \<Rightarrow> bool \<times> 'g BrushNode" where
  "containsPoint brush_containsPoint point = constQuery (brush_containsPoint point)"

definition hasVertex :: "('v \<Rightarrow> 'fl \<Rightarrow> 'g Brush \<Rightarrow> bool) \<Rightarrow> 'v \<Rightarrow> 'fl \<Rightarrow> 'g BrushNode \<Rightarrow> bool \<times> 'g BrushNode" where
  "hasVertex brush_hasVertex position epsilon = constQuery (brush_hasVertex position epsilon)"

definition hasEdge :: "('sg \<Rightarrow> 'fl \<Rightarrow> 'g Brush \<Rightarrow> bool) \<Rightarrow> 'sg \<Rightarrow> 'fl \<Rightarrow> 'g BrushNode \<Rightarrow> bool \<times> 'g BrushNode" where
  "hasEdge brush_hasEdge edge epsilon = constQuery (brush_hasEdge edge epsilon)"

definition hasFace :: "('pg \<Rightarrow> 'fl \<Rightarrow> 'g Brush \<Rightarrow> bool) \<Rightarrow> 'pg \<Rightarrow> 'fl \<Rightarrow> 'g BrushNode \<Rightarrow> bool \<times> 'g BrushNode" where
  "hasFace brush_hasFace face epsilon = constQuery (brush_hasFace face epsilon)"

definition findFace :: "('k \<Rightarrow> 'g Brush \<Rightarrow> 'f option) \<Rightarrow> 'k \<Rightarrow> 'g BrushNode \<Rightarrow> 'f option \<times> 'g BrushNode" where
  "findFace brush_findFace key = constQuery (brush_findFace key)"

definition incidentFaces :: "('bv \<Rightarrow> 'g Brush \<Rightarrow> 'f list) \<Rightarrow> 'bv \<Rightarrow> 'g BrushNode \<Rightarrow> 'f list \<times> 'g BrushNode" where
  "incidentFaces brush_incidentFaces vertex = constQuery (brush_incidentFaces vertex)"

definition canMoveVertices :: "('bb \<Rightarrow> 'v list \<Rightarrow> 'v \<Rightarrow> 'g Brush \<Rightarrow> bool) \<Rightarrow> 'bb \<Rightarrow> 'v list \<Rightarrow> 'v \<Rightarrow> 'g BrushNode \<Rightarrow> bool \<times> 'g BrushNode" where
  "canMoveVertices brush_canMoveVertices worldBounds vertexList delta = constQuery (brush_canMoveVertices worldBounds vertexList delta)"

definition canAddVertex :: "('bb \<Rightarrow> 'v \<Rightarrow> 'g Brush \<Rightarrow> bool) \<Rightarrow> 'bb \<Rightarrow> 'v \<Rightarrow> 'g BrushNode \<Rightarrow> bool \<times> 'g BrushNode" where
  "canAddVertex brush_canAddVertex worldBounds position = constQuery (brush_canAddVertex worldBounds position)"

definition canRemoveVertices :: "('bb \<Rightarrow> 'v list \<Rightarrow> 'g Brush \<Rightarrow> bool) \<Rightarrow> 'bb \<Rightarrow> 'v list \<Rightarrow> 'g BrushNode \<Rightarrow> bool \<times> 'g BrushNode" where
  "canRemoveVertices brush_canRemoveVertices worldBounds vertexList = constQuery (brush_canRemoveVertices worldBounds vertexList)"

definition canMoveEdges :: "('bb \<Rightarrow> 'sg list \<Rightarrow> 'v \<Rightarrow> 'g Brush \<Rightarrow> bool) \<Rightarrow> 'bb \<Rightarrow> 'sg list \<Rightarrow> 'v \<Rightarrow> 'g BrushNode \<Rightarrow> bool \<times> 'g BrushNode" where
  "canMoveEdges brush_canMoveEdges worldBounds edgePositions delta = constQuery (brush_canMoveEdges worldBounds edgePositions delta)"

definition canMoveFaces :: "('bb \<Rightarrow> 'pg list \<Rightarrow> 'v \<Rightarrow> 'g Brush \<Rightarrow> bool) \<Rightarrow> 'bb \<Rightarrow> 'pg list \<Rightarrow> 'v \<Rightarrow> 'g BrushNode \<Rightarrow> bool \<times> 'g BrushNode" where
  "canMoveFaces brush_canMoveFaces worldBounds facePositions delta = constQuery (brush_canMoveFaces worldBounds facePositions delta)"

definition canTransform :: "('m \<Rightarrow> 'bb \<Rightarrow> 'g Brush \<Rightarrow> bool) \<Rightarrow> 'm \<Rightarrow> 'bb \<Rightarrow> 'g BrushNode \<Rightarrow> bool \<times> 'g BrushNode" where
  "canTransform brush_canTransform transformation worldBounds = constQuery (brush_canTransform transformation worldBounds)"


subsection \<open>Subtraction\<close>

text \<open>
  \<^verbatim>\<open>
  std::vector<BrushNode*> BrushNode::subtract(const ModelFactory& factory,
          const vm::bbox3& worldBounds, const std::string& defaultTextureName,
          const std::vector<BrushNode*>& subtrahends) const {
      const std::vector<const Brush*> subtrahendBrushes =
          kdl::vec_transform(subtrahends, [](const auto* brushNode) { return &brushNode->m_brush; });
      auto result = m_brush.subtract(factory, worldBounds, defaultTextureName, subtrahendBrushes);
      return kdl::vec_transform(std::move(result),
          [&](auto brush) { return factory.createBrush(std::move(brush)); });
  }
  \<close>
  The factory (\<^verbatim>\<open>ModelFactory\<close>, an interface) is a value \<open>factory\<close> with its
  capability \<open>createBrush\<close>; \<^verbatim>\<open>Brush::subtract\<close> returns the fragment brushes.  The
  second overload takes one subtrahend node.
\<close>

definition subtract :: "('fa \<Rightarrow> 'g Brush \<Rightarrow> 'nd)
    \<Rightarrow> ('fa \<Rightarrow> 'bb \<Rightarrow> string \<Rightarrow> 'g Brush list \<Rightarrow> 'g Brush \<Rightarrow> 'g Brush list)
    \<Rightarrow> 'fa \<Rightarrow> 'bb \<Rightarrow> string \<Rightarrow> 'g BrushNode list \<Rightarrow> 'g BrushNode \<Rightarrow> 'nd list \<times> 'g BrushNode" where
  "subtract createBrush brush_subtract factory worldBounds defaultTextureName subtrahends n =
     (let subtrahendBrushes = map m_brush subtrahends;
          result = brush_subtract factory worldBounds defaultTextureName subtrahendBrushes (m_brush n)
      in (map (createBrush factory) result, n))"

definition subtract_one :: "('fa \<Rightarrow> 'g Brush \<Rightarrow> 'nd)
    \<Rightarrow> ('fa \<Rightarrow> 'bb \<Rightarrow> string \<Rightarrow> 'g Brush \<Rightarrow> 'g Brush \<Rightarrow> 'g Brush list)
    \<Rightarrow> 'fa \<Rightarrow> 'bb \<Rightarrow> string \<Rightarrow> 'g BrushNode \<Rightarrow> 'g BrushNode \<Rightarrow> 'nd list \<times> 'g BrushNode" where
  "subtract_one createBrush brush_subtract factory worldBounds defaultTextureName subtrahend n =
     (let result = brush_subtract factory worldBounds defaultTextureName (m_brush subtrahend) (m_brush n)
      in (map (createBrush factory) result, n))"


subsection \<open>Nodes at addresses: construction, cloning and calls through pointers\<close>

text \<open>
  \<^verbatim>\<open>
  BrushNode::BrushNode(Brush brush) :
  m_brushRendererBrushCache(std::make_unique<Renderer::BrushRendererBrushCache>()),
  m_brush(std::move(brush)) {
      m_brush.setNode(this);
  }
  \<close>
  A new node has fresh caches, not yet validated, and has done nothing yet.
\<close>

definition new_BrushNode :: "addr \<Rightarrow> 'g Brush \<Rightarrow> 'g BrushNode" where
  "new_BrushNode this brush =
     \<lparr>m_brush = setNode this brush, vertexCacheValid = False, issuesValid = False, steps = []\<rparr>"

type_synonym 'g heap = "addr \<rightharpoonup> 'g BrushNode"


text \<open>A member function called on the node at an address.\<close>

definition on_node :: "addr \<Rightarrow> ('g BrushNode \<Rightarrow> 'x \<times> 'g BrushNode) \<Rightarrow> 'g heap \<Rightarrow> ('x \<times> 'g heap) option" where
  "on_node this member h =
     (case h this of
        None \<Rightarrow> None
      | Some n \<Rightarrow> (case member n of (outcome, n') \<Rightarrow> Some (outcome, h(this \<mapsto> n'))))"

text \<open>
  \<^verbatim>\<open>A->intersect(worldBounds, B)\<close> for two pointers.  The argument is a pointer to
  a \<^verbatim>\<open>const BrushNode\<close>, of which the function reads \<open>m_brush\<close> and hands it to
  \<^verbatim>\<open>Brush::intersect\<close> by reference.  When \<open>B\<close> is another node than \<open>A\<close>, that brush is
  the value that \<open>B\<close> holds.  When both pointers refer to one node, the reference is an
  alias of the brush that is being changed; what \<^verbatim>\<open>Brush::intersect\<close> does then is a
  function of that one brush, the parameter \<open>brush_intersect_self\<close>.
\<close>

definition intersect_at :: "('bb \<Rightarrow> 'g Brush \<Rightarrow> ('g, 'e, unit) brush_mutation)
    \<Rightarrow> ('bb \<Rightarrow> ('g, 'e, unit) brush_mutation)
    \<Rightarrow> 'bb \<Rightarrow> addr \<Rightarrow> addr \<Rightarrow> 'g heap \<Rightarrow> (('e + unit) \<times> 'g heap) option" where
  "intersect_at brush_intersect brush_intersect_self worldBounds A B h =
     (if A = B then
        on_node A (scoped NotifyNodeChange (scoped NotifyPhysicalBoundsChange
          (mutateBrush (brush_intersect_self worldBounds)))) h
      else
        (case h B of
           None \<Rightarrow> None
         | Some brush \<Rightarrow> on_node A (intersect brush_intersect worldBounds brush) h))"


subsection \<open>Example data\<close>

text \<open>
  Concrete nodes and brush operations on which the definitions are run: the geometry of
  a brush is a list of numbers standing for its vertices, an exception is a string.
\<close>

definition example_node :: "nat list BrushNode" where
  "example_node =
     \<lparr>m_brush = \<lparr>m_node = Some 0, m_geometry = [0, 4]\<rparr>,
      vertexCacheValid = True, issuesValid = True, steps = []\<rparr>"

definition example_other :: "nat list BrushNode" where
  "example_other =
     \<lparr>m_brush = \<lparr>m_node = Some 1, m_geometry = [4, 8]\<rparr>,
      vertexCacheValid = True, issuesValid = True, steps = []\<rparr>"

definition example_heap :: "nat list heap" where
  "example_heap = [0 \<mapsto> example_node, 1 \<mapsto> example_other]"

definition example_setFaces :: "unit \<Rightarrow> nat list \<Rightarrow> (nat list, string, unit) brush_mutation" where
  "example_setFaces worldBounds fs brush =
     (if length fs < 2 then (Inl ''GeometryException'', brush)
      else (Inr (), brush\<lparr>m_geometry := fs\<rparr>))"


definition example_intersect :: "unit \<Rightarrow> nat list Brush \<Rightarrow> (nat list, string, unit) brush_mutation" where
  "example_intersect worldBounds other brush =
     (let common = filter (\<lambda>v. v \<in> set (m_geometry other)) (m_geometry brush)
      in if common = [] then (Inl ''GeometryException'', brush\<lparr>m_geometry := common\<rparr>)
         else (Inr (), brush\<lparr>m_geometry := common\<rparr>))"

definition example_subtract :: "unit \<Rightarrow> unit \<Rightarrow> string \<Rightarrow> nat list Brush list \<Rightarrow> nat list Brush \<Rightarrow> nat list Brush list" where
  "example_subtract factory worldBounds defaultTextureName subtrahends brush =
     map (\<lambda>v. \<lparr>m_node = None, m_geometry = [v]\<rparr>)
       (filter (\<lambda>v. \<forall>s \<in> set subtrahends. v \<notin> set (m_geometry s)) (m_geometry brush))"


section \<open>The owner of a brush node (BrushNode.cpp, lines 86-107)\<close>

text \<open>
  The scene graph has five kinds of node.  A node knows its parent, if it has one; the
  chain of parents of a node in a tree is finite, so a node is given with its chain.
\<close>

datatype node_kind = WorldKind | LayerKind | GroupKind | EntityKind | BrushKind

datatype scene_node = SceneNode (address: addr) (kind: node_kind) (parent: "scene_node option")

text \<open>
  Modelled from the spec: \<^verbatim>\<open>NodeVisitor\<close>, \<^verbatim>\<open>NodeQuery\<close> and
  \<^verbatim>\<open>Node::acceptAndEscalate\<close> are declared in headers that are not among the sources.
  Section 9 of the specification describes them as a "visitor-style" dispatch over the
  node kinds with "an explicit ownership-chain walk, returning the first matching
  ancestor".  A visitor carries a cancellation flag and a query result; \<open>setResult\<close>
  stores a result, \<open>cancel\<close> sets the flag, \<open>hasResult\<close> tells whether a result was stored.
  \<open>acceptAndEscalate\<close> lets the visitor visit the node and, unless the visitor is
  cancelled or the node has no parent, goes on with the parent.
\<close>

record FindBrushOwner =
  m_cancelled :: bool
  m_result :: "scene_node option"

definition setResult :: "scene_node \<Rightarrow> FindBrushOwner \<Rightarrow> FindBrushOwner" where
  "setResult node visitor = visitor\<lparr>m_result := Some node\<rparr>"

definition cancel :: "FindBrushOwner \<Rightarrow> FindBrushOwner" where
  "cancel visitor = visitor\<lparr>m_cancelled := True\<rparr>"

definition hasResult :: "FindBrushOwner \<Rightarrow> bool" where
  "hasResult visitor \<longleftrightarrow> m_result visitor \<noteq> None"

text \<open>
  \<^verbatim>\<open>
  class FindBrushOwner : public NodeVisitor, public NodeQuery<AttributableNode*> {
  private:
      void doVisit(WorldNode* world) override       { setResult(world); cancel(); }
      void doVisit(LayerNode* /* layer */) override {}
      void doVisit(GroupNode* /* group */) override {}
      void doVisit(EntityNode* entity) override     { setResult(entity); cancel(); }
      void doVisit(BrushNode* /* brush */) override {}
  };
  \<close>
\<close>

definition doVisit :: "scene_node \<Rightarrow> FindBrushOwner \<Rightarrow> FindBrushOwner" where
  "doVisit node visitor =
     (case kind node of
        WorldKind \<Rightarrow> cancel (setResult node visitor)
      | LayerKind \<Rightarrow> visitor
      | GroupKind \<Rightarrow> visitor
      | EntityKind \<Rightarrow> cancel (setResult node visitor)
      | BrushKind \<Rightarrow> visitor)"

fun acceptAndEscalate :: "scene_node \<Rightarrow> FindBrushOwner \<Rightarrow> FindBrushOwner" where
  "acceptAndEscalate (SceneNode a k p) visitor =
     (let visitor' = doVisit (SceneNode a k p) visitor
      in case p of
           None \<Rightarrow> visitor'
         | Some up \<Rightarrow> if m_cancelled visitor' then visitor' else acceptAndEscalate up visitor')"

text \<open>
  \<^verbatim>\<open>
  AttributableNode* BrushNode::entity() const {
      if (parent() == nullptr) {
          return nullptr;
      }
      FindBrushOwner visitor;
      parent()->acceptAndEscalate(visitor);
      if (!visitor.hasResult()) {
          return nullptr;
      } else {
          return visitor.result();
      }
  }
  \<close>
\<close>

definition entity :: "scene_node \<Rightarrow> scene_node option" where
  "entity this =
     (case parent this of
        None \<Rightarrow> None
      | Some up \<Rightarrow>
          (let visitor = acceptAndEscalate up \<lparr>m_cancelled = False, m_result = None\<rparr>
           in if \<not> hasResult visitor then None else m_result visitor))"

text \<open>The ancestors of a node, nearest first.\<close>

fun ancestors :: "scene_node \<Rightarrow> scene_node list" where
  "ancestors (SceneNode a k p) = (case p of None \<Rightarrow> [] | Some up \<Rightarrow> up # ancestors up)"

text \<open>The kinds of node that \<open>FindBrushOwner\<close> accepts as the owner.\<close>

definition is_owner :: "scene_node \<Rightarrow> bool" where
  "is_owner node \<longleftrightarrow> kind node = EntityKind \<or> kind node = WorldKind"

definition example_world :: scene_node where
  "example_world = SceneNode 1 WorldKind None"

definition example_entity :: scene_node where
  "example_entity = SceneNode 3 EntityKind (Some (SceneNode 2 LayerKind (Some example_world)))"

definition example_brush :: scene_node where
  "example_brush = SceneNode 5 BrushKind (Some (SceneNode 4 GroupKind (Some example_entity)))"


section \<open>Picking (BrushNode.cpp, lines 386-417)\<close>

text \<open>
  A \<^verbatim>\<open>FloatType\<close> value is \<open>None\<close> when it is NaN and \<open>Some d\<close> otherwise; the
  picking code only asks whether a distance is NaN.  The geometry
  (\<^verbatim>\<open>vm::intersect_ray_bbox\<close>, \<^verbatim>\<open>BrushFace::intersectWithRay\<close>,
  \<^verbatim>\<open>vm::point_at_distance\<close>), the node's \<^verbatim>\<open>logicalBounds()\<close>, the brush's faces and
  \<^verbatim>\<open>PickResult::addHit\<close> are parameters.
\<close>

definition is_nan :: "'d option \<Rightarrow> bool" where
  "is_nan distance \<longleftrightarrow> distance = None"

record ('f, 'd) BrushFaceHit =
  hit_face :: "'f option"
  hit_distance :: "'d option"

text \<open>
  \<^verbatim>\<open>BrushFaceHit() : face(nullptr), distance(vm::nan<FloatType>()) {}\<close>
\<close>

definition no_BrushFaceHit :: "('f, 'd) BrushFaceHit" where
  "no_BrushFaceHit = \<lparr>hit_face = None, hit_distance = None\<rparr>"

text \<open>
  \<^verbatim>\<open>
  BrushNode::BrushFaceHit BrushNode::findFaceHit(const vm::ray3& ray) const {
      if (vm::is_nan(vm::intersect_ray_bbox(ray, logicalBounds()))) {
          return BrushFaceHit();
      }
      for (auto* face : m_brush.faces()) {
          const auto distance = face->intersectWithRay(ray);
          if (!vm::is_nan(distance)) {
              return BrushFaceHit(face, distance);
          }
      }
      return BrushFaceHit();
  }
  \<close>
\<close>

fun firstFaceHit :: "('f \<Rightarrow> 'r \<Rightarrow> 'd option) \<Rightarrow> 'r \<Rightarrow> 'f list \<Rightarrow> ('f, 'd) BrushFaceHit" where
  "firstFaceHit intersectWithRay ray [] = no_BrushFaceHit"
| "firstFaceHit intersectWithRay ray (face # rest) =
     (let distance = intersectWithRay face ray
      in if \<not> is_nan distance then \<lparr>hit_face = Some face, hit_distance = distance\<rparr>
         else firstFaceHit intersectWithRay ray rest)"

definition findFaceHit :: "('r \<Rightarrow> 'bb \<Rightarrow> 'd option) \<Rightarrow> ('f \<Rightarrow> 'r \<Rightarrow> 'd option) \<Rightarrow> 'bb \<Rightarrow> 'f list
    \<Rightarrow> 'r \<Rightarrow> ('f, 'd) BrushFaceHit" where
  "findFaceHit intersect_ray_bbox intersectWithRay logicalBounds brushFaces ray =
     (if is_nan (intersect_ray_bbox ray logicalBounds) then no_BrushFaceHit
      else firstFaceHit intersectWithRay ray brushFaces)"

text \<open>
  \<^verbatim>\<open>
  void BrushNode::doPick(const vm::ray3& ray, PickResult& pickResult) {
      const auto hit = findFaceHit(ray);
      if (hit.face != nullptr) {
          ensure(!vm::is_nan(hit.distance), "nan hit distance");
          const auto hitPoint = vm::point_at_distance(ray, hit.distance);
          pickResult.addHit(Hit(BrushHitType, hit.distance, hitPoint, BrushFaceHandle(this, hit.face)));
      }
  }
  \<close>
  A hit has a type, a distance, a point and a target, here the handle of the face: the
  node and the face.  A failed \<^verbatim>\<open>ensure\<close> ends the call with its message.
\<close>

record ('t, 'd, 'p, 'f) Hit =
  hitType :: 't
  hitDistance :: "'d option"
  hitPoint :: 'p
  hitTarget :: "addr \<times> 'f"

datatype failure = EnsureFailed string

definition doPick :: "('r \<Rightarrow> 'bb \<Rightarrow> 'd option) \<Rightarrow> ('f \<Rightarrow> 'r \<Rightarrow> 'd option) \<Rightarrow> ('r \<Rightarrow> 'd option \<Rightarrow> 'p)
    \<Rightarrow> (('t, 'd, 'p, 'f) Hit \<Rightarrow> 'pr \<Rightarrow> 'pr) \<Rightarrow> 't \<Rightarrow> 'bb \<Rightarrow> 'f list \<Rightarrow> addr \<Rightarrow> 'r \<Rightarrow> 'pr
    \<Rightarrow> failure + 'pr" where
  "doPick intersect_ray_bbox intersectWithRay point_at_distance addHit BrushHitType
          logicalBounds brushFaces this ray pickResult =
     (let hit = findFaceHit intersect_ray_bbox intersectWithRay logicalBounds brushFaces ray
      in case hit_face hit of
           None \<Rightarrow> Inr pickResult
         | Some face \<Rightarrow>
             if is_nan (hit_distance hit) then Inl (EnsureFailed ''nan hit distance'')
             else (let point = point_at_distance ray (hit_distance hit)
                   in Inr (addHit \<lparr>hitType = BrushHitType, hitDistance = hit_distance hit,
                                   hitPoint = point, hitTarget = (this, face)\<rparr> pickResult)))"


section \<open>Rows of a cell layout (CellLayout.cpp, lines 30-244)\<close>

text \<open>
  The layout computes with \<^verbatim>\<open>float\<close>.  The type of the numbers (\<open>'f\<close>) and the
  arithmetic on them are parameters, so that nothing is assumed about rounding,
  infinities, NaN or division by zero: \<open>ops\<close> holds the constants \<^verbatim>\<open>0.0f\<close> and
  \<^verbatim>\<open>2.0f\<close>, the four operations and the comparisons \<^verbatim>\<open><\<close> and \<^verbatim>\<open><=\<close> of the
  machine.  \<^verbatim>\<open>a > b\<close> is \<^verbatim>\<open>b < a\<close>.  \<^verbatim>\<open>std::min(a, b)\<close> returns \<open>b\<close> when
  \<^verbatim>\<open>b < a\<close> and \<open>a\<close> otherwise; \<^verbatim>\<open>std::max(a, b)\<close> returns \<open>b\<close> when \<^verbatim>\<open>a < b\<close> and
  \<open>a\<close> otherwise.  The limit on the cells of a row is a \<^verbatim>\<open>size_t\<close>, an unsigned
  machine integer; the number of cells that a vector holds is the length of the list.
  An \<^verbatim>\<open>assert\<close> that fails ends the call.
\<close>

type_synonym size_t = "64 word"

datatype abort = AssertionFailed string

record 'f float_ops =
  f_zero :: 'f
  f_two :: 'f
  f_add :: "'f \<Rightarrow> 'f \<Rightarrow> 'f"
  f_sub :: "'f \<Rightarrow> 'f \<Rightarrow> 'f"
  f_mul :: "'f \<Rightarrow> 'f \<Rightarrow> 'f"
  f_div :: "'f \<Rightarrow> 'f \<Rightarrow> 'f"
  f_less :: "'f \<Rightarrow> 'f \<Rightarrow> bool"
  f_le :: "'f \<Rightarrow> 'f \<Rightarrow> bool"

definition std_min :: "'f float_ops \<Rightarrow> 'f \<Rightarrow> 'f \<Rightarrow> 'f" where
  "std_min ops a b = (if f_less ops b a then b else a)"

definition std_max :: "'f float_ops \<Rightarrow> 'f \<Rightarrow> 'f \<Rightarrow> 'f" where
  "std_max ops a b = (if f_less ops a b then b else a)"

record 'f LayoutBounds =
  bounds_x :: 'f
  bounds_y :: 'f
  bounds_width :: 'f
  bounds_height :: 'f

text \<open>
  \<^verbatim>\<open>
  float LayoutBounds::left() const   { return x; }
  float LayoutBounds::top() const    { return y; }
  float LayoutBounds::right() const  { return x + width; }
  float LayoutBounds::bottom() const { return y + height; }
  \<close>
  (\<^verbatim>\<open>top\<close> is named \<open>top_bounds\<close> here.)
\<close>

definition left :: "'f LayoutBounds \<Rightarrow> 'f" where
  "left b = bounds_x b"

definition top_bounds :: "'f LayoutBounds \<Rightarrow> 'f" where
  "top_bounds b = bounds_y b"

definition right :: "'f float_ops \<Rightarrow> 'f LayoutBounds \<Rightarrow> 'f" where
  "right ops b = f_add ops (bounds_x b) (bounds_width b)"

definition bottom :: "'f float_ops \<Rightarrow> 'f LayoutBounds \<Rightarrow> 'f" where
  "bottom ops b = f_add ops (bounds_y b) (bounds_height b)"

text \<open>
  A cell; the title margin of a cell is \<open>m_cellTitleMargin\<close> here, that of a row keeps
  the name \<open>m_titleMargin\<close>.  The item of a cell is a \<^verbatim>\<open>std::any\<close>, empty until
  \<^verbatim>\<open>setItem\<close>.
\<close>

record ('f, 'i) LayoutCell =
  m_x :: 'f
  m_y :: 'f
  m_itemWidth :: 'f
  m_itemHeight :: 'f
  m_titleWidth :: 'f
  m_titleHeight :: 'f
  m_cellTitleMargin :: 'f
  m_scale :: 'f
  m_cellBounds :: "'f LayoutBounds"
  m_itemBounds :: "'f LayoutBounds"
  m_titleBounds :: "'f LayoutBounds"
  m_item :: "'i option"

text \<open>
  \<^verbatim>\<open>
  void LayoutCell::doLayout(const float maxUpScale, const float minWidth, const float maxWidth,
                            const float minHeight, const float maxHeight) {
      assert(0.0f < minWidth);
      assert(0.0f < minHeight);
      assert(minWidth <= maxWidth);
      assert(minHeight <= maxHeight);

      m_scale = std::min(std::min(maxWidth / m_itemWidth, maxHeight / m_itemHeight), maxUpScale);
      const float scaledItemWidth = m_scale * m_itemWidth;
      const float scaledItemHeight = m_scale * m_itemHeight;
      const float clippedTitleWidth = std::min(m_titleWidth, maxWidth);
      const float cellWidth = std::max(minWidth, std::max(scaledItemWidth, clippedTitleWidth));
      const float cellHeight = std::max(minHeight,
          std::max(minHeight, scaledItemHeight) + m_titleHeight + m_titleMargin);
      const float itemY = m_y + std::max(0.0f,
          cellHeight - m_titleHeight - scaledItemHeight - m_titleMargin);

      m_cellBounds = LayoutBounds{m_x, m_y, cellWidth, cellHeight};
      m_itemBounds = LayoutBounds{m_x + (m_cellBounds.width - scaledItemWidth) / 2.0f,
                                  itemY, scaledItemWidth, scaledItemHeight};
      m_titleBounds = LayoutBounds{m_x + (m_cellBounds.width - clippedTitleWidth) / 2.0f,
                                   m_itemBounds.bottom() + m_titleMargin,
                                   clippedTitleWidth, m_titleHeight};
  }
  \<close>
  Sums and differences associate to the left, as in the source.
\<close>

definition doLayout :: "'f float_ops \<Rightarrow> 'f \<Rightarrow> 'f \<Rightarrow> 'f \<Rightarrow> 'f \<Rightarrow> 'f \<Rightarrow> ('f, 'i) LayoutCell
    \<Rightarrow> abort + ('f, 'i) LayoutCell" where
  "doLayout ops maxUpScale minWidth maxWidth minHeight maxHeight cell =
     (if \<not> f_less ops (f_zero ops) minWidth then Inl (AssertionFailed ''0.0f < minWidth'')
      else if \<not> f_less ops (f_zero ops) minHeight then Inl (AssertionFailed ''0.0f < minHeight'')
      else if \<not> f_le ops minWidth maxWidth then Inl (AssertionFailed ''minWidth <= maxWidth'')
      else if \<not> f_le ops minHeight maxHeight then Inl (AssertionFailed ''minHeight <= maxHeight'')
      else
        (let scale = std_min ops (std_min ops (f_div ops maxWidth (m_itemWidth cell))
                                              (f_div ops maxHeight (m_itemHeight cell))) maxUpScale;
             scaledItemWidth = f_mul ops scale (m_itemWidth cell);
             scaledItemHeight = f_mul ops scale (m_itemHeight cell);
             clippedTitleWidth = std_min ops (m_titleWidth cell) maxWidth;
             cellWidth = std_max ops minWidth (std_max ops scaledItemWidth clippedTitleWidth);
             cellHeight = std_max ops minHeight
               (f_add ops (f_add ops (std_max ops minHeight scaledItemHeight) (m_titleHeight cell))
                          (m_cellTitleMargin cell));
             itemY = f_add ops (m_y cell)
               (std_max ops (f_zero ops)
                  (f_sub ops (f_sub ops (f_sub ops cellHeight (m_titleHeight cell)) scaledItemHeight)
                             (m_cellTitleMargin cell)));
             cellBounds = \<lparr>bounds_x = m_x cell, bounds_y = m_y cell,
                           bounds_width = cellWidth, bounds_height = cellHeight\<rparr>;
             itemBounds = \<lparr>bounds_x = f_add ops (m_x cell)
                             (f_div ops (f_sub ops (bounds_width cellBounds) scaledItemWidth) (f_two ops)),
                           bounds_y = itemY,
                           bounds_width = scaledItemWidth, bounds_height = scaledItemHeight\<rparr>;
             titleBounds = \<lparr>bounds_x = f_add ops (m_x cell)
                              (f_div ops (f_sub ops (bounds_width cellBounds) clippedTitleWidth) (f_two ops)),
                            bounds_y = f_add ops (bottom ops itemBounds) (m_cellTitleMargin cell),
                            bounds_width = clippedTitleWidth, bounds_height = m_titleHeight cell\<rparr>
         in Inr (cell\<lparr>m_scale := scale, m_cellBounds := cellBounds,
                        m_itemBounds := itemBounds, m_titleBounds := titleBounds\<rparr>)))"

text \<open>
  The constructor stores its first seven arguments and lays the cell out; the fields that
  \<open>doLayout\<close> assigns have no value before (they are filled with \<^verbatim>\<open>0.0f\<close> here and
  never read).  \<^verbatim>\<open>updateLayout\<close> is \<open>doLayout\<close>.
\<close>

definition new_LayoutCell :: "'f float_ops \<Rightarrow> 'f \<Rightarrow> 'f \<Rightarrow> 'f \<Rightarrow> 'f \<Rightarrow> 'f \<Rightarrow> 'f \<Rightarrow> 'f
    \<Rightarrow> 'f \<Rightarrow> 'f \<Rightarrow> 'f \<Rightarrow> 'f \<Rightarrow> 'f \<Rightarrow> abort + ('f, 'i) LayoutCell" where
  "new_LayoutCell ops x y itemWidth itemHeight titleWidth titleHeight titleMargin
                  maxUpScale minWidth maxWidth minHeight maxHeight =
     (let unset = \<lparr>bounds_x = f_zero ops, bounds_y = f_zero ops,
                    bounds_width = f_zero ops, bounds_height = f_zero ops\<rparr>
      in doLayout ops maxUpScale minWidth maxWidth minHeight maxHeight
           \<lparr>m_x = x, m_y = y, m_itemWidth = itemWidth, m_itemHeight = itemHeight,
            m_titleWidth = titleWidth, m_titleHeight = titleHeight,
            m_cellTitleMargin = titleMargin, m_scale = f_zero ops,
            m_cellBounds = unset, m_itemBounds = unset, m_titleBounds = unset, m_item = None\<rparr>)"

definition updateLayout :: "'f float_ops \<Rightarrow> 'f \<Rightarrow> 'f \<Rightarrow> 'f \<Rightarrow> 'f \<Rightarrow> 'f \<Rightarrow> ('f, 'i) LayoutCell
    \<Rightarrow> abort + ('f, 'i) LayoutCell" where
  "updateLayout ops maxUpScale minWidth maxWidth minHeight maxHeight cell =
     doLayout ops maxUpScale minWidth maxWidth minHeight maxHeight cell"

definition setItem :: "'i \<Rightarrow> ('f, 'i) LayoutCell \<Rightarrow> ('f, 'i) LayoutCell" where
  "setItem item cell = cell\<lparr>m_item := Some item\<rparr>"

record ('f, 'i) LayoutRow =
  m_cellMargin :: 'f
  m_titleMargin :: 'f
  m_maxWidth :: 'f
  m_maxCells :: size_t
  m_maxUpScale :: 'f
  m_minCellWidth :: 'f
  m_maxCellWidth :: 'f
  m_minCellHeight :: 'f
  m_maxCellHeight :: 'f
  m_bounds :: "'f LayoutBounds"
  m_cells :: "('f, 'i) LayoutCell list"

text \<open>
  The constructor of a row stores its arguments; the bounds start at
  \<^verbatim>\<open>{x, y, 0.0f, 0.0f}\<close> and the row has no cells.
\<close>

definition new_LayoutRow :: "'f float_ops \<Rightarrow> 'f \<Rightarrow> 'f \<Rightarrow> 'f \<Rightarrow> 'f \<Rightarrow> 'f \<Rightarrow> size_t
    \<Rightarrow> 'f \<Rightarrow> 'f \<Rightarrow> 'f \<Rightarrow> 'f \<Rightarrow> 'f \<Rightarrow> ('f, 'i) LayoutRow" where
  "new_LayoutRow ops x y cellMargin titleMargin maxWidth maxCells
                 maxUpScale minCellWidth maxCellWidth minCellHeight maxCellHeight =
     \<lparr>m_cellMargin = cellMargin, m_titleMargin = titleMargin, m_maxWidth = maxWidth,
      m_maxCells = maxCells, m_maxUpScale = maxUpScale,
      m_minCellWidth = minCellWidth, m_maxCellWidth = maxCellWidth,
      m_minCellHeight = minCellHeight, m_maxCellHeight = maxCellHeight,
      m_bounds = \<lparr>bounds_x = x, bounds_y = y,
                  bounds_width = f_zero ops, bounds_height = f_zero ops\<rparr>,
      m_cells = []\<rparr>"

text \<open>
  \<^verbatim>\<open>
  bool LayoutRow::canAddItem(const float itemWidth, const float itemHeight,
                             const float titleWidth, const float titleHeight) const {
      float x = m_bounds.right();
      float width = m_bounds.width;
      if (!m_cells.empty()) {
          x += m_cellMargin;
          width += m_cellMargin;
      }

      auto cell = LayoutCell{x, m_bounds.top(), itemWidth, itemHeight, titleWidth, titleHeight,
          m_titleMargin, m_maxUpScale, m_minCellWidth, m_maxCellWidth, m_minCellHeight, m_maxCellHeight};
      width += cell.cellBounds().width;

      if (m_maxCells == 0 && width > m_maxWidth && !m_cells.empty()) {
          return false;
      }
      if (m_maxCells > 0 && m_cells.size() >= m_maxCells - 1) {
          return false;
      }
      return true;
  }
  \<close>
\<close>

definition canAddItem :: "'f float_ops \<Rightarrow> 'f \<Rightarrow> 'f \<Rightarrow> 'f \<Rightarrow> 'f \<Rightarrow> ('f, 'i) LayoutRow \<Rightarrow> abort + bool" where
  "canAddItem ops itemWidth itemHeight titleWidth titleHeight r =
     (let x = (if m_cells r \<noteq> [] then f_add ops (right ops (m_bounds r)) (m_cellMargin r)
               else right ops (m_bounds r));
          w = (if m_cells r \<noteq> [] then f_add ops (bounds_width (m_bounds r)) (m_cellMargin r)
               else bounds_width (m_bounds r))
      in case new_LayoutCell ops x (top_bounds (m_bounds r)) itemWidth itemHeight titleWidth
                titleHeight (m_titleMargin r) (m_maxUpScale r) (m_minCellWidth r)
                (m_maxCellWidth r) (m_minCellHeight r) (m_maxCellHeight r)
                :: abort + ('f, 'i) LayoutCell of
           Inl a \<Rightarrow> Inl a
         | Inr cell \<Rightarrow>
             (let w' = f_add ops w (bounds_width (m_cellBounds cell))
              in if m_maxCells r = 0 \<and> f_less ops (m_maxWidth r) w' \<and> m_cells r \<noteq> []
                   then Inr False
                 else if m_maxCells r > 0 \<and> length (m_cells r) \<ge> unat (m_maxCells r - 1)
                   then Inr False
                 else Inr True))"

text \<open>
  \<^verbatim>\<open>
  void LayoutRow::readjustItems() {
      for (auto& cell : m_cells) {
          cell.updateLayout(m_maxUpScale, m_minCellWidth, m_maxCellWidth,
                            m_minCellHeight, m_maxCellHeight);
      }
  }
  \<close>
\<close>

fun readjustCells :: "'f float_ops \<Rightarrow> 'f \<Rightarrow> 'f \<Rightarrow> 'f \<Rightarrow> 'f \<Rightarrow> 'f \<Rightarrow> ('f, 'i) LayoutCell list
    \<Rightarrow> abort + ('f, 'i) LayoutCell list" where
  "readjustCells ops maxUpScale minWidth maxWidth minHeight maxHeight [] = Inr []"
| "readjustCells ops maxUpScale minWidth maxWidth minHeight maxHeight (cell # rest) =
     (case updateLayout ops maxUpScale minWidth maxWidth minHeight maxHeight cell of
        Inl a \<Rightarrow> Inl a
      | Inr cell' \<Rightarrow>
          (case readjustCells ops maxUpScale minWidth maxWidth minHeight maxHeight rest of
             Inl a \<Rightarrow> Inl a
           | Inr rest' \<Rightarrow> Inr (cell' # rest')))"

definition readjustItems :: "'f float_ops \<Rightarrow> ('f, 'i) LayoutRow \<Rightarrow> abort + ('f, 'i) LayoutRow" where
  "readjustItems ops r =
     (case readjustCells ops (m_maxUpScale r) (m_minCellWidth r) (m_maxCellWidth r)
             (m_minCellHeight r) (m_maxCellHeight r) (m_cells r) of
        Inl a \<Rightarrow> Inl a
      | Inr cs \<Rightarrow> Inr (r\<lparr>m_cells := cs\<rparr>))"

text \<open>
  \<^verbatim>\<open>
  void LayoutRow::addItem(std::any item, const float itemWidth, const float itemHeight,
                          const float titleWidth, const float titleHeight) {
      float x = m_bounds.right();
      float width = m_bounds.width;
      if (!m_cells.empty()) {
          x += m_cellMargin;
          width += m_cellMargin;
      }

      auto cell = LayoutCell{x, m_bounds.top(), itemWidth, itemHeight, titleWidth, titleHeight,
          m_titleMargin, m_maxUpScale, m_minCellWidth, m_maxCellWidth, m_minCellHeight, m_maxCellHeight};
      width += cell.cellBounds().width;

      const float newItemRowHeight =
          cell.cellBounds().height - cell.titleBounds().height - m_titleMargin;
      bool readjust = newItemRowHeight > m_minCellHeight;
      if (readjust) {
          m_minCellHeight = newItemRowHeight;
          assert(m_minCellHeight <= m_maxCellHeight);
          readjustItems();
      }

      m_bounds = LayoutBounds{m_bounds.left(), m_bounds.top(), width,
                              std::max(m_bounds.height, cell.cellBounds().height)};

      cell.setItem(std::move(item));
      m_cells.push_back(std::move(cell));
  }
  \<close>
\<close>

definition addItem :: "'f float_ops \<Rightarrow> 'i \<Rightarrow> 'f \<Rightarrow> 'f \<Rightarrow> 'f \<Rightarrow> 'f \<Rightarrow> ('f, 'i) LayoutRow
    \<Rightarrow> abort + ('f, 'i) LayoutRow" where
  "addItem ops item itemWidth itemHeight titleWidth titleHeight r =
     (let x = (if m_cells r \<noteq> [] then f_add ops (right ops (m_bounds r)) (m_cellMargin r)
               else right ops (m_bounds r));
          w = (if m_cells r \<noteq> [] then f_add ops (bounds_width (m_bounds r)) (m_cellMargin r)
               else bounds_width (m_bounds r))
      in case new_LayoutCell ops x (top_bounds (m_bounds r)) itemWidth itemHeight titleWidth
                titleHeight (m_titleMargin r) (m_maxUpScale r) (m_minCellWidth r)
                (m_maxCellWidth r) (m_minCellHeight r) (m_maxCellHeight r) of
           Inl a \<Rightarrow> Inl a
         | Inr cell \<Rightarrow>
             (let w' = f_add ops w (bounds_width (m_cellBounds cell));
                  newItemRowHeight =
                    f_sub ops (f_sub ops (bounds_height (m_cellBounds cell))
                                         (bounds_height (m_titleBounds cell)))
                              (m_titleMargin r);
                  readjust = f_less ops (m_minCellHeight r) newItemRowHeight;
                  readjusted =
                    (if readjust then
                       (let r1 = r\<lparr>m_minCellHeight := newItemRowHeight\<rparr>
                        in if \<not> f_le ops (m_minCellHeight r1) (m_maxCellHeight r1)
                           then Inl (AssertionFailed ''m_minCellHeight <= m_maxCellHeight'')
                           else readjustItems ops r1)
                     else Inr r)
              in case readjusted of
                   Inl a \<Rightarrow> Inl a
                 | Inr r2 \<Rightarrow>
                     Inr (r2\<lparr>m_bounds := \<lparr>bounds_x = left (m_bounds r2),
                                           bounds_y = top_bounds (m_bounds r2),
                                           bounds_width = w',
                                           bounds_height = std_max ops (bounds_height (m_bounds r2))
                                                             (bounds_height (m_cellBounds cell))\<rparr>,
                              m_cells := m_cells r2 @ [setItem item cell]\<rparr>)))"

text \<open>
  The protocol of a caller (as \<^verbatim>\<open>LayoutGroup::addItem\<close> follows it): an item is added
  to a row only after \<open>canAddItem\<close> has answered true for it.  \<open>addItems\<close> adds the items
  of a list in order and stops at the first one that is refused.  An item comes with its
  width, height, title width and title height.
\<close>

fun addItems :: "'f float_ops \<Rightarrow> ('i \<times> 'f \<times> 'f \<times> 'f \<times> 'f) list \<Rightarrow> ('f, 'i) LayoutRow
    \<Rightarrow> abort + ('f, 'i) LayoutRow" where
  "addItems ops [] r = Inr r"
| "addItems ops ((item, itemWidth, itemHeight, titleWidth, titleHeight) # others) r =
     (case canAddItem ops itemWidth itemHeight titleWidth titleHeight r of
        Inl a \<Rightarrow> Inl a
      | Inr False \<Rightarrow> Inr r
      | Inr True \<Rightarrow>
          (case addItem ops item itemWidth itemHeight titleWidth titleHeight r of
             Inl a \<Rightarrow> Inl a
           | Inr r' \<Rightarrow> addItems ops others r'))"

text \<open>The conditions that the assertions of \<open>doLayout\<close> put on the limits of a row.\<close>

definition limitsAsserted :: "'f float_ops \<Rightarrow> ('f, 'i) LayoutRow \<Rightarrow> bool" where
  "limitsAsserted ops r \<longleftrightarrow>
     f_less ops (f_zero ops) (m_minCellWidth r) \<and> f_less ops (f_zero ops) (m_minCellHeight r)
     \<and> f_le ops (m_minCellWidth r) (m_maxCellWidth r)
     \<and> f_le ops (m_minCellHeight r) (m_maxCellHeight r)"

text \<open>
  Example data: arithmetic on the rationals among the reals.  On the rows below every
  value is a small integer or a quotient by a power of two, which \<^verbatim>\<open>float\<close> represents
  and computes without rounding.
\<close>

definition exact_ops :: "real float_ops" where
  "exact_ops = \<lparr>f_zero = 0, f_two = 2, f_add = (+), f_sub = (-), f_mul = (*), f_div = (/),
                f_less = (<), f_le = (\<le>)\<rparr>"

definition example_row :: "size_t \<Rightarrow> (real, nat) LayoutRow" where
  "example_row maxCells = new_LayoutRow exact_ops 0 0 5 2 150 maxCells 1 100 100 100 100"

section \<open>Properties of the face tags\<close>

lemma bit_fold_and:
  "bit (fold (\<lambda>face shared. shared AND faceTagMask face) fs (init :: 'a::len word)) i
     \<longleftrightarrow> bit init i \<and> (\<forall>face \<in> set fs. bit (faceTagMask face) i)"
  by (induction fs arbitrary: init) (auto simp: bit_and_iff)

lemma bit_sharedFaceTags:
  "bit (sharedFaceTags faceTagMask fs :: 'a::len word) i
     \<longleftrightarrow> i < LENGTH('a) \<and> (\<forall>face \<in> set fs. bit (faceTagMask face) i)"
  by (simp add: sharedFaceTags_def AnyType_def bit_fold_and)

lemma word_and_nonzero_iff:
  "(v AND w \<noteq> (0 :: 'a::len word)) \<longleftrightarrow> (\<exists>i. bit v i \<and> bit w i)"
  by (auto simp: bit_eq_iff bit_and_iff dest: bit_imp_le_length)

text \<open>
  Claim C9.  With no faces, \<open>allFacesHaveAnyTagInMask\<close> answers true for every non-zero
  mask (the conjunction starts from the mask with all bits set), while
  \<open>anyFaceHasAnyTag\<close> and \<open>anyFacesHaveAnyTagInMask\<close> answer false.  With at least one
  face, \<open>allFacesHaveAnyTagInMask\<close> answers true exactly when one bit of the mask is set
  in the tag mask of every face.
\<close>

theorem allFacesHaveAnyTagInMask_shared_bit:
  "(tagMask \<noteq> 0 \<longrightarrow> allFacesHaveAnyTagInMask faceTagMask [] (tagMask :: 'a::len word))
   \<and> \<not> anyFaceHasAnyTag hasAnyTag []
   \<and> \<not> anyFacesHaveAnyTagInMask hasTag [] tagMask
   \<and> (fs \<noteq> [] \<longrightarrow>
        (allFacesHaveAnyTagInMask faceTagMask fs tagMask
           \<longleftrightarrow> (\<exists>i. bit tagMask i \<and> (\<forall>face \<in> set fs. bit (faceTagMask face) i))))"
proof -
  have shared: "allFacesHaveAnyTagInMask faceTagMask gs tagMask
      \<longleftrightarrow> (\<exists>i. bit tagMask i \<and> (\<forall>face \<in> set gs. bit (faceTagMask face) i))" for gs
    unfolding allFacesHaveAnyTagInMask_def word_and_nonzero_iff bit_sharedFaceTags
    by (auto dest: bit_imp_le_length)
  have "allFacesHaveAnyTagInMask faceTagMask [] tagMask" if "tagMask \<noteq> 0"
  proof -
    from that obtain i where "bit tagMask i"
      by (auto simp: bit_eq_iff)
    then show ?thesis
      by (auto simp: shared)
  qed
  then show ?thesis
    by (simp add: shared)
qed

theorem allFacesHaveAnyTagInMask_shared_bit_witness:
  "allFacesHaveAnyTagInMask id [] (4 :: 8 word)
   \<and> \<not> anyFaceHasAnyTag (\<lambda>w :: 8 word. w \<noteq> 0) []
   \<and> \<not> anyFacesHaveAnyTagInMask (\<lambda>(w :: 8 word) m. w AND m \<noteq> 0) [] (4 :: 8 word)
   \<and> allFacesHaveAnyTagInMask id [6, 12 :: 8 word] 4
   \<and> (\<exists>i. bit (4 :: 8 word) i \<and> bit (6 :: 8 word) i \<and> bit (12 :: 8 word) i)"
  using allFacesHaveAnyTagInMask_shared_bit
    [of "4 :: 8 word" id "\<lambda>w :: 8 word. w \<noteq> 0" "\<lambda>(w :: 8 word) m. w AND m \<noteq> 0" "[6, 12 :: 8 word]"]
  by (simp add: allFacesHaveAnyTagInMask_def sharedFaceTags_def AnyType_def)

section \<open>Properties of the brush node\<close>

subsection \<open>What a guarded mutation does\<close>

lemma steps_guarded_mutation:
  "steps (snd (scoped NotifyNodeChange (scoped NotifyPhysicalBoundsChange (mutateBrush f)) n))
     = steps n @ [Acquired NotifyNodeChange, Acquired NotifyPhysicalBoundsChange, BrushMutation,
                  Released NotifyPhysicalBoundsChange, Released NotifyNodeChange]"
  by (simp add: scoped_def mutateBrush_def logStep_def split: prod.splits)

lemma outcome_guarded_mutation:
  "fst (scoped NotifyNodeChange (scoped NotifyPhysicalBoundsChange (mutateBrush f)) n)
     = fst (f (m_brush n))"
  by (auto simp add: scoped_def mutateBrush_def logStep_def split: prod.splits)

lemma brush_guarded_mutation:
  "m_brush (snd (scoped NotifyNodeChange (scoped NotifyPhysicalBoundsChange (mutateBrush f)) n))
     = snd (f (m_brush n))"
  by (simp add: scoped_def mutateBrush_def logStep_def split: prod.splits)

lemma bracketed_guarded_mutation:
  "bracketed n (snd (scoped NotifyNodeChange (scoped NotifyPhysicalBoundsChange (mutateBrush f)) n))"
  by (simp add: bracketed_def emitted_def firedOnceAround_def steps_guarded_mutation)

lemma steps_setBrush:
  "steps (snd (setBrush this brush n))
     = steps n @ [Acquired NotifyNodeChange, Acquired NotifyPhysicalBoundsChange, BrushMutation,
                  InvalidateIssues, InvalidateVertexCache,
                  Released NotifyPhysicalBoundsChange, Released NotifyNodeChange]"
  by (simp add: setBrush_def scoped_def logStep_def invalidateIssues_def invalidateVertexCache_def)

lemma steps_setFaces:
  "steps (snd (setFaces brush_setFaces worldBounds fs n))
     = steps n @ [Acquired NotifyNodeChange, Acquired NotifyPhysicalBoundsChange, BrushMutation]
         @ (case fst (brush_setFaces worldBounds fs (m_brush n)) of
              Inl e \<Rightarrow> [] | Inr u \<Rightarrow> [InvalidateIssues, InvalidateVertexCache])
         @ [Released NotifyPhysicalBoundsChange, Released NotifyNodeChange]"
  by (simp add: setFaces_def scoped_def mutateBrush_def logStep_def invalidateIssues_def
      invalidateVertexCache_def split: prod.splits sum.splits)


lemma bracketed_setBrush: "bracketed n (snd (setBrush this brush n))"
  by (simp add: bracketed_def emitted_def firedOnceAround_def steps_setBrush)

lemma bracketed_setFaces: "bracketed n (snd (setFaces brush_setFaces worldBounds fs n))"
  by (simp add: bracketed_def emitted_def firedOnceAround_def steps_setFaces split: sum.splits)

lemma constQuery_frame: "snd (constQuery brush_query n) = n"
  by (simp add: constQuery_def)

lemma setFaces_exception_example:
  "setFaces example_setFaces () [7] example_node
     = (Inl ''GeometryException'',
        example_node\<lparr>steps := [Acquired NotifyNodeChange, Acquired NotifyPhysicalBoundsChange,
                                BrushMutation,
                                Released NotifyPhysicalBoundsChange, Released NotifyNodeChange]\<rparr>)"
  by (simp add: setFaces_def scoped_def mutateBrush_def logStep_def example_setFaces_def
      example_node_def)

subsection \<open>Notifications around a mutation\<close>

text \<open>
  Claim C1.  Each public mutating operation of the node (\<open>setBrush\<close>, \<open>setFaces\<close>,
  \<open>moveVertices\<close>, \<open>addVertex\<close>, \<open>removeVertices\<close>, \<open>snapVertices\<close>, \<open>moveEdges\<close>,
  \<open>moveFaces\<close>, \<open>intersect\<close>, \<open>findIntegerPlanePoints\<close>, \<open>transform\<close>) fires the
  node-change and the physical-bounds-change notification once per call: each guard is
  acquired once before the brush mutation runs and released once after it, whatever the
  outcome of the mutation, an exception (\<open>Inl\<close>) included.
\<close>

theorem mutations_bracketed_by_both_guards:
  "bracketed n (snd (setBrush this brush n))
   \<and> bracketed n (snd (setFaces brush_setFaces worldBounds fs n))
   \<and> bracketed n (snd (moveVertices brush_moveVertices worldBounds vs delta uvLock n))
   \<and> bracketed n (snd (addVertex brush_addVertex worldBounds position n))
   \<and> bracketed n (snd (removeVertices brush_removeVertices worldBounds vs n))
   \<and> bracketed n (snd (snapVertices brush_snapVertices worldBounds snapToF uvLock n))
   \<and> bracketed n (snd (moveEdges brush_moveEdges worldBounds es delta uvLock n))
   \<and> bracketed n (snd (moveFaces brush_moveFaces worldBounds ps delta uvLock n))
   \<and> bracketed n (snd (intersect brush_intersect worldBounds other n))
   \<and> bracketed n (snd (findIntegerPlanePoints brush_findIntegerPlanePoints worldBounds n))
   \<and> bracketed n (snd (doTransform brush_transform transformation lockTextures worldBounds n))"
  unfolding moveVertices_def addVertex_def removeVertices_def snapVertices_def moveEdges_def moveFaces_def intersect_def findIntegerPlanePoints_def doTransform_def
  by (intro conjI bracketed_setBrush bracketed_setFaces bracketed_guarded_mutation)

subsection \<open>Queries\<close>

text \<open>
  Claim C3.  A read-only query (\<open>faceCount\<close>, \<open>faces\<close>, \<open>vertexCount\<close>, \<open>vertices\<close>,
  \<open>vertexPositions\<close>, \<open>edgeCount\<close>, \<open>edges\<close>, \<open>closed\<close>, \<open>fullySpecified\<close>,
  \<open>containsPoint\<close>, \<open>hasVertex\<close>, \<open>hasEdge\<close>, \<open>hasFace\<close>, \<open>findFace\<close>,
  \<open>incidentFaces\<close> and the \<open>can...\<close> predicates) leaves the node as it was: its brush,
  both caches and the recorded steps, so no notification fires and nothing is
  invalidated.
\<close>

theorem queries_leave_node_unchanged:
  "snd (faceCount brush_faceCount n) = n
   \<and> snd (faces brush_faces n) = n
   \<and> snd (vertexCount brush_vertexCount n) = n
   \<and> snd (vertices brush_vertices n) = n
   \<and> snd (vertexPositions brush_vertexPositions n) = n
   \<and> snd (edgeCount brush_edgeCount n) = n
   \<and> snd (edges brush_edges n) = n
   \<and> snd (closed_brush brush_closed n) = n
   \<and> snd (fullySpecified brush_fullySpecified n) = n
   \<and> snd (containsPoint brush_containsPoint point n) = n
   \<and> snd (hasVertex brush_hasVertex position epsilon n) = n
   \<and> snd (hasEdge brush_hasEdge edge epsilon n) = n
   \<and> snd (hasFace brush_hasFace face epsilon n) = n
   \<and> snd (findFace brush_findFace key n) = n
   \<and> snd (incidentFaces brush_incidentFaces vertex n) = n
   \<and> snd (canMoveVertices brush_canMoveVertices worldBounds vs delta n) = n
   \<and> snd (canAddVertex brush_canAddVertex worldBounds position n) = n
   \<and> snd (canRemoveVertices brush_canRemoveVertices worldBounds vs n) = n
   \<and> snd (canMoveEdges brush_canMoveEdges worldBounds es delta n) = n
   \<and> snd (canMoveFaces brush_canMoveFaces worldBounds ps delta n) = n
   \<and> snd (canTransform brush_canTransform transformation worldBounds n) = n"
  unfolding faceCount_def faces_def vertexCount_def vertices_def vertexPositions_def edgeCount_def edges_def closed_brush_def fullySpecified_def containsPoint_def hasVertex_def hasEdge_def hasFace_def findFace_def incidentFaces_def canMoveVertices_def canAddVertex_def canRemoveVertices_def canMoveEdges_def canMoveFaces_def canTransform_def
  by (intro conjI constQuery_frame)

subsection \<open>Subtraction returns new nodes\<close>

text \<open>
  Claim C4.  \<open>subtract\<close> returns one node per fragment brush of \<open>Brush::subtract\<close>, in
  order, each made by the factory's \<open>createBrush\<close> (so none when there is no fragment),
  and leaves the minuend node unchanged; so does the overload for one subtrahend.
\<close>

theorem subtract_one_node_per_fragment:
  "fst (subtract createBrush brush_subtract factory worldBounds defaultTextureName subtrahends n)
     = map (createBrush factory)
         (brush_subtract factory worldBounds defaultTextureName (map m_brush subtrahends) (m_brush n))
   \<and> length (fst (subtract createBrush brush_subtract factory worldBounds defaultTextureName subtrahends n))
     = length (brush_subtract factory worldBounds defaultTextureName (map m_brush subtrahends) (m_brush n))
   \<and> snd (subtract createBrush brush_subtract factory worldBounds defaultTextureName subtrahends n) = n
   \<and> fst (subtract_one createBrush brush_subtract_one factory worldBounds defaultTextureName subtrahend n)
     = map (createBrush factory)
         (brush_subtract_one factory worldBounds defaultTextureName (m_brush subtrahend) (m_brush n))
   \<and> length (fst (subtract_one createBrush brush_subtract_one factory worldBounds defaultTextureName subtrahend n))
     = length (brush_subtract_one factory worldBounds defaultTextureName (m_brush subtrahend) (m_brush n))
   \<and> snd (subtract_one createBrush brush_subtract_one factory worldBounds defaultTextureName subtrahend n) = n"
  by (simp add: subtract_def subtract_one_def Let_def)

lemma subtract_examples:
  "fst (subtract (\<lambda>factory. new_BrushNode 7) example_subtract () () ''tex'' [example_other] example_node)
     = [new_BrushNode 7 \<lparr>m_node = None, m_geometry = [0]\<rparr>]"
  "fst (subtract (\<lambda>factory. new_BrushNode 7) example_subtract () () ''tex'' [example_other, example_node] example_node)
     = []"
  by (simp_all add: subtract_def example_subtract_def example_node_def example_other_def)

subsection \<open>Intersection and its argument\<close>

text \<open>
  Claim C5.  For a node \<open>A\<close> and another node \<open>B\<close>, \<open>A.intersect(worldBounds, B)\<close> runs:
  it replaces the brush of \<open>A\<close> by what \<open>Brush::intersect\<close>, given the brush of \<open>B\<close>, leaves
  of it, in place (the node stays at its address), bracketed by the node-change and the
  bounds-change notification, and it leaves the node \<open>B\<close> as it was.
\<close>

theorem intersect_changes_only_receiver:
  assumes "h A = Some a" and "h B = Some b" and "A \<noteq> B"
  shows "\<exists>outcome a'. intersect_at brush_intersect brush_intersect_self worldBounds A B h
                         = Some (outcome, h(A \<mapsto> a'))
           \<and> (outcome, m_brush a') = brush_intersect worldBounds (m_brush b) (m_brush a)
           \<and> bracketed a a'
           \<and> (h(A \<mapsto> a')) B = Some b"
proof -
  obtain outcome a' where call: "intersect brush_intersect worldBounds b a = (outcome, a')"
    by (cases "intersect brush_intersect worldBounds b a")
  have "intersect_at brush_intersect brush_intersect_self worldBounds A B h
      = Some (outcome, h(A \<mapsto> a'))"
    using assms call by (simp add: intersect_at_def on_node_def)
  moreover have "(outcome, m_brush a') = brush_intersect worldBounds (m_brush b) (m_brush a)"
    using call outcome_guarded_mutation [of "brush_intersect worldBounds (m_brush b)" a]
      brush_guarded_mutation [of "brush_intersect worldBounds (m_brush b)" a]
    by (simp add: intersect_def prod_eq_iff)
  moreover have "bracketed a a'"
    using call bracketed_guarded_mutation [of a "brush_intersect worldBounds (m_brush b)"]
    by (simp add: intersect_def)
  moreover have "(h(A \<mapsto> a')) B = Some b"
    using assms by simp
  ultimately show ?thesis
    by auto
qed

theorem intersect_changes_only_receiver_witness:
  "example_heap 0 = Some example_node \<and> example_heap 1 = Some example_other \<and> (0 :: addr) \<noteq> 1
   \<and> (\<exists>outcome a'. intersect_at example_intersect (\<lambda>worldBounds brush. (Inr (), brush)) () 0 1
                       example_heap = Some (outcome, example_heap(0 \<mapsto> a'))
         \<and> (outcome, m_brush a') = (Inr (), \<lparr>m_node = Some 0, m_geometry = [4]\<rparr>)
         \<and> bracketed example_node a'
         \<and> (example_heap(0 \<mapsto> a')) 1 = Some example_other)"
proof -
  have h0: "example_heap 0 = Some example_node" and h1: "example_heap 1 = Some example_other"
    by (simp_all add: example_heap_def)
  have ne: "(0 :: addr) \<noteq> 1"
    by simp
  have run: "example_intersect () (m_brush example_other) (m_brush example_node)
      = (Inr (), \<lparr>m_node = Some 0, m_geometry = [4]\<rparr>)"
    by (simp add: example_intersect_def example_node_def example_other_def)
  from intersect_changes_only_receiver
    [OF h0 h1 ne, of example_intersect "\<lambda>worldBounds brush. (Inr (), brush)" "()"] run
  show ?thesis
    using h0 h1 by auto
qed

subsection \<open>Ownership of the brush\<close>




section \<open>Properties of the owner lookup\<close>

lemma doVisit_owner:
  "is_owner node \<Longrightarrow> doVisit node visitor = visitor\<lparr>m_result := Some node, m_cancelled := True\<rparr>"
  by (cases "kind node") (simp_all add: is_owner_def doVisit_def cancel_def setResult_def)

lemma doVisit_other: "\<not> is_owner node \<Longrightarrow> doVisit node visitor = visitor"
  by (cases "kind node") (simp_all add: is_owner_def doVisit_def)

lemma acceptAndEscalate_finds_first:
  "\<not> m_cancelled visitor \<Longrightarrow> m_result visitor = None \<Longrightarrow>
     m_result (acceptAndEscalate node visitor) = List.find is_owner (node # ancestors node)"
proof (induction node visitor rule: acceptAndEscalate.induct)
  case (1 a k p visitor)
  show ?case
  proof (cases "is_owner (SceneNode a k p)")
    case True
    then show ?thesis
      by (simp add: doVisit_owner Let_def split: option.splits)
  next
    case False
    then have same: "doVisit (SceneNode a k p) visitor = visitor"
      by (rule doVisit_other)
    show ?thesis
    proof (cases p)
      case None
      with False same "1.prems" show ?thesis
        by simp
    next
      case (Some up)
      with False same "1.prems" "1.IH" [of visitor up] show ?thesis
        by simp
    qed
  qed
qed

text \<open>
  Claim C7.  \<open>entity\<close> returns the nearest ancestor of the node that is an entity or a
  world node, passing over layer, group and brush nodes; it returns nothing when the node
  has no parent or no ancestor is of these kinds.
\<close>

theorem entity_nearest_owner:
  "entity this = List.find (\<lambda>node. kind node = EntityKind \<or> kind node = WorldKind) (ancestors this)"
proof (cases this)
  case (SceneNode a k p)
  show ?thesis
  proof (cases p)
    case None
    with SceneNode show ?thesis
      by (simp add: entity_def)
  next
    case (Some up)
    have "m_result (acceptAndEscalate up \<lparr>m_cancelled = False, m_result = None\<rparr>)
        = List.find is_owner (up # ancestors up)"
      by (rule acceptAndEscalate_finds_first) simp_all
    with SceneNode Some show ?thesis
      by (simp add: entity_def hasResult_def Let_def is_owner_def [abs_def])
  qed
qed

lemma entity_examples:
  "entity example_brush = Some example_entity"
  "entity example_entity = Some example_world"
  "entity example_world = None"
  "entity (SceneNode 9 BrushKind (Some (SceneNode 8 LayerKind None))) = None"
  by (simp_all add: entity_def example_brush_def example_entity_def example_world_def
      doVisit_def hasResult_def cancel_def setResult_def)


section \<open>Properties of picking\<close>

lemma firstFaceHit_find:
  "firstFaceHit intersectWithRay ray fs =
     (case List.find (\<lambda>face. \<not> is_nan (intersectWithRay face ray)) fs of
        None \<Rightarrow> no_BrushFaceHit
      | Some face \<Rightarrow> \<lparr>hit_face = Some face, hit_distance = intersectWithRay face ray\<rparr>)"
  by (induction fs) (simp_all add: Let_def)

text \<open>
  Claim C8.  \<open>doPick\<close> never fails its \<open>ensure\<close> and adds at most one hit: none when the
  ray misses the bounding box of the node (the faces are not asked), and otherwise one
  for the first face, in the order of the brush's faces, whose distance along the ray is
  not NaN, with that distance and the point at that distance; none when there is no such
  face.
\<close>

theorem doPick_first_face_hit:
  "doPick intersect_ray_bbox intersectWithRay point_at_distance addHit BrushHitType
          logicalBounds fs this ray pickResult =
     Inr (if is_nan (intersect_ray_bbox ray logicalBounds) then pickResult
          else case List.find (\<lambda>face. \<not> is_nan (intersectWithRay face ray)) fs of
                 None \<Rightarrow> pickResult
               | Some face \<Rightarrow>
                   addHit \<lparr>hitType = BrushHitType, hitDistance = intersectWithRay face ray,
                           hitPoint = point_at_distance ray (intersectWithRay face ray),
                           hitTarget = (this, face)\<rparr> pickResult)"
proof (cases "is_nan (intersect_ray_bbox ray logicalBounds)")
  case True
  then show ?thesis
    by (simp add: doPick_def findFaceHit_def no_BrushFaceHit_def)
next
  case False
  show ?thesis
  proof (cases "List.find (\<lambda>face. \<not> is_nan (intersectWithRay face ray)) fs")
    case None
    with False show ?thesis
      by (simp add: doPick_def findFaceHit_def firstFaceHit_find no_BrushFaceHit_def)
  next
    case (Some face)
    then have "\<not> is_nan (intersectWithRay face ray)"
      by (auto simp: find_Some_iff)
    with False Some show ?thesis
      by (simp add: doPick_def findFaceHit_def firstFaceHit_find)
  qed
qed

lemma doPick_examples:
  "doPick (\<lambda>ray bounds. None) (\<lambda>face ray. Some (face + ray)) (\<lambda>ray d. (ray, d)) (#) ''brush''
      () [3, 4 :: nat] 0 (1 :: nat) [] = Inr []"
  "doPick (\<lambda>ray bounds. Some (0 :: nat)) (\<lambda>face ray. if face < 4 then None else Some (face + ray))
      (\<lambda>ray d. (ray, d)) (#) ''brush'' () [3, 4, 5 :: nat] 0 (1 :: nat) []
     = Inr [\<lparr>hitType = ''brush'', hitDistance = Some 5, hitPoint = (1, Some 5), hitTarget = (0, 4)\<rparr>]"
  by (simp_all add: doPick_def findFaceHit_def no_BrushFaceHit_def is_nan_def)

section \<open>Properties of the rows of a cell layout\<close>

text \<open>
  The properties hold for every arithmetic \<open>ops\<close>: they use no law of the numbers.
\<close>

lemma new_LayoutCell_returns:
  assumes "f_less ops (f_zero ops) minWidth" "f_less ops (f_zero ops) minHeight"
    "f_le ops minWidth maxWidth" "f_le ops minHeight maxHeight"
  shows "\<exists>cell. new_LayoutCell ops x y itemWidth itemHeight titleWidth titleHeight titleMargin
                  maxUpScale minWidth maxWidth minHeight maxHeight = Inr cell"
  using assms by (simp add: new_LayoutCell_def doLayout_def Let_def)

lemma canAddItem_decision:
  fixes r :: "('f, 'i) LayoutRow" and cell :: "('f, 'i) LayoutCell"
  assumes "new_LayoutCell ops
             (if m_cells r \<noteq> [] then f_add ops (right ops (m_bounds r)) (m_cellMargin r)
              else right ops (m_bounds r))
             (top_bounds (m_bounds r)) itemWidth itemHeight titleWidth titleHeight
             (m_titleMargin r) (m_maxUpScale r) (m_minCellWidth r) (m_maxCellWidth r)
             (m_minCellHeight r) (m_maxCellHeight r) = Inr cell"
  shows "canAddItem ops itemWidth itemHeight titleWidth titleHeight r =
           Inr (if m_maxCells r = 0
                then m_cells r = [] \<or> \<not> f_less ops (m_maxWidth r)
                       (f_add ops
                          (if m_cells r \<noteq> [] then f_add ops (bounds_width (m_bounds r)) (m_cellMargin r)
                           else bounds_width (m_bounds r))
                          (bounds_width (m_cellBounds cell)))
                else length (m_cells r) < unat (m_maxCells r - 1))"
proof -
  have "canAddItem ops itemWidth itemHeight titleWidth titleHeight r =
      (if m_maxCells r = 0
          \<and> f_less ops (m_maxWidth r)
               (f_add ops
                  (if m_cells r \<noteq> [] then f_add ops (bounds_width (m_bounds r)) (m_cellMargin r)
                   else bounds_width (m_bounds r))
                  (bounds_width (m_cellBounds cell)))
          \<and> m_cells r \<noteq> []
       then Inr False
       else if 0 < m_maxCells r \<and> unat (m_maxCells r - 1) \<le> length (m_cells r)
         then Inr False else Inr True)"
    by (simp only: canAddItem_def Let_def assms sum.case)
  then show ?thesis
    by (cases "m_maxCells r = 0"; cases "m_cells r = []")
      (simp_all add: word_greater_zero_iff not_le)
qed

lemma canAddItem_returns:
  fixes r :: "('f, 'i) LayoutRow"
  assumes "limitsAsserted ops r"
  shows "\<exists>cell :: ('f, 'i) LayoutCell. new_LayoutCell ops x y itemWidth itemHeight titleWidth
           titleHeight (m_titleMargin r) (m_maxUpScale r) (m_minCellWidth r) (m_maxCellWidth r)
           (m_minCellHeight r) (m_maxCellHeight r) = Inr cell"
  using assms unfolding limitsAsserted_def by (intro new_LayoutCell_returns) simp_all

lemma canAddItem_True_room:
  fixes r :: "('f, 'i) LayoutRow"
  assumes "canAddItem ops itemWidth itemHeight titleWidth titleHeight r = Inr True"
    and "m_maxCells r \<noteq> 0"
  shows "length (m_cells r) < unat (m_maxCells r - 1)"
proof (cases "new_LayoutCell ops
             (if m_cells r \<noteq> [] then f_add ops (right ops (m_bounds r)) (m_cellMargin r)
              else right ops (m_bounds r))
             (top_bounds (m_bounds r)) itemWidth itemHeight titleWidth titleHeight
             (m_titleMargin r) (m_maxUpScale r) (m_minCellWidth r) (m_maxCellWidth r)
             (m_minCellHeight r) (m_maxCellHeight r) :: abort + ('f, 'i) LayoutCell")
  case (Inl a)
  then have "canAddItem ops itemWidth itemHeight titleWidth titleHeight r = Inl a"
    by (simp only: canAddItem_def Let_def sum.case)
  with assms show ?thesis
    by simp
next
  case (Inr cell)
  from canAddItem_decision [OF Inr] assms show ?thesis
    by simp
qed

lemma length_readjustCells:
  "readjustCells ops maxUpScale minWidth maxWidth minHeight maxHeight cs = Inr cs'
     \<Longrightarrow> length cs' = length cs"
  by (induction cs arbitrary: cs') (auto split: sum.splits)

lemma addItem_one_more_cell:
  assumes "addItem ops item itemWidth itemHeight titleWidth titleHeight r = Inr r'"
  shows "length (m_cells r') = Suc (length (m_cells r)) \<and> m_maxCells r' = m_maxCells r"
  using assms
  by (auto simp add: addItem_def readjustItems_def Let_def
      split: sum.splits if_splits dest: length_readjustCells)

lemma addItems_below_limit:
  assumes "addItems ops items r = Inr r'"
    and "m_maxCells r \<noteq> 0"
    and "length (m_cells r) \<le> unat (m_maxCells r) - 1"
  shows "length (m_cells r') \<le> unat (m_maxCells r') - 1 \<and> m_maxCells r' = m_maxCells r"
  using assms
proof (induction ops items r rule: addItems.induct)
  case (1 ops r)
  then show ?case by simp
next
  case (2 ops item itemWidth itemHeight titleWidth titleHeight others r)
  show ?case
  proof (cases "canAddItem ops itemWidth itemHeight titleWidth titleHeight r")
    case (Inl a)
    with "2.prems" show ?thesis by simp
  next
    case (Inr allowed)
    show ?thesis
    proof (cases allowed)
      case False
      with Inr "2.prems" show ?thesis by simp
    next
      case True
      with Inr "2.prems" obtain r1 where
        add: "addItem ops item itemWidth itemHeight titleWidth titleHeight r = Inr r1"
        and rest: "addItems ops others r1 = Inr r'"
        by (auto split: sum.splits)
      from Inr True "2.prems" have "length (m_cells r) < unat (m_maxCells r - 1)"
        by (auto dest: canAddItem_True_room)
      moreover have "unat (m_maxCells r - 1) = unat (m_maxCells r) - 1"
        using "2.prems" by (simp add: unat_minus_one)
      moreover note addItem_one_more_cell [OF add]
      ultimately have "m_maxCells r1 \<noteq> 0" and "length (m_cells r1) \<le> unat (m_maxCells r1) - 1"
        and "m_maxCells r1 = m_maxCells r"
        using "2.prems" by simp_all
      then have "length (m_cells r') \<le> unat (m_maxCells r') - 1 \<and> m_maxCells r' = m_maxCells r1"
        using "2.IH" [OF Inr _ add rest] True by blast
      with \<open>m_maxCells r1 = m_maxCells r\<close> show ?thesis
        by clarsimp
    qed
  qed
qed

text \<open>
  Claim C10.  For a row with a positive cell limit \<open>maxCells\<close>, \<open>canAddItem\<close> answers
  false as soon as the row holds \<open>maxCells - 1\<close> cells, so a row that is filled under the
  protocol, from the empty row, never holds more than \<open>maxCells - 1\<close> cells.  With the
  limit zero only the width limits the row: the first cell is always accepted, and a
  further cell is refused exactly when the width of the row with the margin and the new
  cell, as the machine adds them, compares greater than \<open>maxWidth\<close>.  (\<open>canAddItem\<close>
  returns when the limits of the row pass the assertions of \<open>doLayout\<close>.)
\<close>

theorem row_holds_fewer_cells_than_limit:
  fixes r :: "('f, 'i) LayoutRow" and cell :: "('f, 'i) LayoutCell" and r' :: "('f, 'j) LayoutRow"
  shows
  "(limitsAsserted ops r \<and> m_maxCells r \<noteq> 0 \<and> unat (m_maxCells r) - 1 \<le> length (m_cells r)
      \<longrightarrow> canAddItem ops itemWidth itemHeight titleWidth titleHeight r = Inr False)
   \<and> (maxCells \<noteq> 0
        \<and> addItems ops items (new_LayoutRow ops x y cellMargin titleMargin maxWidth maxCells
              maxUpScale minCellWidth maxCellWidth minCellHeight maxCellHeight) = Inr r'
      \<longrightarrow> length (m_cells r') \<le> unat maxCells - 1)
   \<and> (limitsAsserted ops r \<and> m_maxCells r = 0 \<and> m_cells r = []
      \<longrightarrow> canAddItem ops itemWidth itemHeight titleWidth titleHeight r = Inr True)
   \<and> (m_maxCells r = 0 \<and> m_cells r \<noteq> []
        \<and> new_LayoutCell ops (f_add ops (right ops (m_bounds r)) (m_cellMargin r))
              (top_bounds (m_bounds r)) itemWidth itemHeight titleWidth titleHeight
              (m_titleMargin r) (m_maxUpScale r) (m_minCellWidth r) (m_maxCellWidth r)
              (m_minCellHeight r) (m_maxCellHeight r) = Inr cell
      \<longrightarrow> canAddItem ops itemWidth itemHeight titleWidth titleHeight r =
            Inr (\<not> f_less ops (m_maxWidth r)
                     (f_add ops (f_add ops (bounds_width (m_bounds r)) (m_cellMargin r))
                                (bounds_width (m_cellBounds cell)))))"
proof (intro conjI impI)
  assume a: "limitsAsserted ops r \<and> m_maxCells r \<noteq> 0 \<and> unat (m_maxCells r) - 1 \<le> length (m_cells r)"
  then obtain c :: "('f, 'i) LayoutCell" where "new_LayoutCell ops
             (if m_cells r \<noteq> [] then f_add ops (right ops (m_bounds r)) (m_cellMargin r)
              else right ops (m_bounds r))
             (top_bounds (m_bounds r)) itemWidth itemHeight titleWidth titleHeight
             (m_titleMargin r) (m_maxUpScale r) (m_minCellWidth r) (m_maxCellWidth r)
             (m_minCellHeight r) (m_maxCellHeight r) = Inr c"
    using canAddItem_returns [where ops = ops and r = r and itemWidth = itemWidth
        and itemHeight = itemHeight and titleWidth = titleWidth and titleHeight = titleHeight
        and y = "top_bounds (m_bounds r)"
        and x = "if m_cells r \<noteq> [] then f_add ops (right ops (m_bounds r)) (m_cellMargin r)
                 else right ops (m_bounds r)"]
    by auto
  from canAddItem_decision [OF this] a
  show "canAddItem ops itemWidth itemHeight titleWidth titleHeight r = Inr False"
    by (simp add: unat_minus_one)
next
  assume a: "maxCells \<noteq> 0
        \<and> addItems ops items (new_LayoutRow ops x y cellMargin titleMargin maxWidth maxCells
              maxUpScale minCellWidth maxCellWidth minCellHeight maxCellHeight) = Inr r'"
  have start: "m_maxCells (new_LayoutRow ops x y cellMargin titleMargin maxWidth maxCells
        maxUpScale minCellWidth maxCellWidth minCellHeight maxCellHeight :: ('f, 'j) LayoutRow) = maxCells"
    "m_cells (new_LayoutRow ops x y cellMargin titleMargin maxWidth maxCells
        maxUpScale minCellWidth maxCellWidth minCellHeight maxCellHeight :: ('f, 'j) LayoutRow) = []"
    by (simp_all add: new_LayoutRow_def)
  have "length (m_cells r') \<le> unat (m_maxCells r') - 1 \<and> m_maxCells r' = maxCells"
    using addItems_below_limit [of ops items "new_LayoutRow ops x y cellMargin titleMargin maxWidth
              maxCells maxUpScale minCellWidth maxCellWidth minCellHeight maxCellHeight" r'] a
    by (simp only: start list.size) clarsimp
  then show "length (m_cells r') \<le> unat maxCells - 1"
    by clarsimp
next
  assume a: "limitsAsserted ops r \<and> m_maxCells r = 0 \<and> m_cells r = []"
  then obtain c :: "('f, 'i) LayoutCell" where "new_LayoutCell ops
             (if m_cells r \<noteq> [] then f_add ops (right ops (m_bounds r)) (m_cellMargin r)
              else right ops (m_bounds r))
             (top_bounds (m_bounds r)) itemWidth itemHeight titleWidth titleHeight
             (m_titleMargin r) (m_maxUpScale r) (m_minCellWidth r) (m_maxCellWidth r)
             (m_minCellHeight r) (m_maxCellHeight r) = Inr c"
    using canAddItem_returns [where ops = ops and r = r and itemWidth = itemWidth
        and itemHeight = itemHeight and titleWidth = titleWidth and titleHeight = titleHeight
        and y = "top_bounds (m_bounds r)"
        and x = "if m_cells r \<noteq> [] then f_add ops (right ops (m_bounds r)) (m_cellMargin r)
                 else right ops (m_bounds r)"]
    by auto
  from canAddItem_decision [OF this] a
  show "canAddItem ops itemWidth itemHeight titleWidth titleHeight r = Inr True"
    by simp
next
  assume a: "m_maxCells r = 0 \<and> m_cells r \<noteq> []
        \<and> new_LayoutCell ops (f_add ops (right ops (m_bounds r)) (m_cellMargin r))
              (top_bounds (m_bounds r)) itemWidth itemHeight titleWidth titleHeight
              (m_titleMargin r) (m_maxUpScale r) (m_minCellWidth r) (m_maxCellWidth r)
              (m_minCellHeight r) (m_maxCellHeight r) = Inr cell"
  then have "new_LayoutCell ops
             (if m_cells r \<noteq> [] then f_add ops (right ops (m_bounds r)) (m_cellMargin r)
              else right ops (m_bounds r))
             (top_bounds (m_bounds r)) itemWidth itemHeight titleWidth titleHeight
             (m_titleMargin r) (m_maxUpScale r) (m_minCellWidth r) (m_maxCellWidth r)
             (m_minCellHeight r) (m_maxCellHeight r) = Inr cell"
    by simp
  from canAddItem_decision [OF this] a
  show "canAddItem ops itemWidth itemHeight titleWidth titleHeight r =
            Inr (\<not> f_less ops (m_maxWidth r)
                     (f_add ops (f_add ops (bounds_width (m_bounds r)) (m_cellMargin r))
                                (bounds_width (m_cellBounds cell))))"
    by simp
qed

text \<open>The definitions run on example rows: limits 100 to 100, width 150, margin 5.\<close>

lemmas layout_eval = addItem_def canAddItem_def new_LayoutCell_def doLayout_def readjustItems_def
  updateLayout_def setItem_def new_LayoutRow_def example_row_def limitsAsserted_def
  left_def right_def top_bounds_def bottom_def std_min_def std_max_def exact_ops_def Let_def

lemma example_row_three:
  "\<exists>r'. addItems exact_ops [(1, 64, 64, 30, 10), (2, 128, 32, 40, 10), (3, 16, 16, 20, 10)]
          (example_row 3) = Inr r'
        \<and> length (m_cells r') = 2 \<and> limitsAsserted exact_ops r' \<and> m_maxCells r' = 3"
  by (simp add: layout_eval)

lemma example_row_unlimited:
  "\<exists>r' (cell :: (real, nat) LayoutCell).
        addItems exact_ops [(1, 64, 64, 30, 10)] (example_row 0) = Inr r'
        \<and> m_cells r' \<noteq> [] \<and> m_maxCells r' = 0 \<and> m_maxWidth r' = 150
        \<and> new_LayoutCell exact_ops (f_add exact_ops (right exact_ops (m_bounds r')) (m_cellMargin r'))
              (top_bounds (m_bounds r'))
              128 32 40 10 (m_titleMargin r') (m_maxUpScale r') (m_minCellWidth r')
              (m_maxCellWidth r') (m_minCellHeight r') (m_maxCellHeight r') = Inr cell
        \<and> f_add exact_ops (f_add exact_ops (bounds_width (m_bounds r')) (m_cellMargin r'))
             (bounds_width (m_cellBounds cell)) = 205"
  by (simp add: layout_eval)

theorem row_holds_fewer_cells_than_limit_witness:
  "(\<exists>r'. addItems exact_ops [(1, 64, 64, 30, 10), (2, 128, 32, 40, 10), (3, 16, 16, 20, 10)]
           (example_row 3) = Inr r'
         \<and> length (m_cells r') = 2
         \<and> length (m_cells r') \<le> unat (3 :: size_t) - 1
         \<and> canAddItem exact_ops 16 16 20 10 r' = Inr False)
   \<and> canAddItem exact_ops 64 64 30 10 (example_row 0) = Inr True
   \<and> (\<exists>r'. addItems exact_ops [(1, 64, 64, 30, 10)] (example_row 0) = Inr r'
          \<and> m_cells r' \<noteq> []
          \<and> canAddItem exact_ops 128 32 40 10 r' = Inr False)"
proof -
  obtain r3 :: "(real, nat) LayoutRow" where r3:
    "addItems exact_ops [(1, 64, 64, 30, 10), (2, 128, 32, 40, 10), (3, 16, 16, 20, 10)]
       (example_row 3) = Inr r3"
    "length (m_cells r3) = 2" "limitsAsserted exact_ops r3" "m_maxCells r3 = 3"
    using example_row_three by blast
  have "canAddItem exact_ops 16 16 20 10 r3 = Inr False"
    using row_holds_fewer_cells_than_limit
      [where ops = exact_ops and r = r3 and itemWidth = 16 and itemHeight = 16
         and titleWidth = 20 and titleHeight = 10, THEN conjunct1] r3
    by simp
  moreover have "length (m_cells r3) \<le> unat (3 :: size_t) - 1"
    using row_holds_fewer_cells_than_limit
      [where ops = exact_ops and maxCells = 3 and r' = r3 and x = 0 and y = 0 and cellMargin = 5
         and titleMargin = 2 and maxWidth = 150 and maxUpScale = 1 and minCellWidth = 100
         and maxCellWidth = 100 and minCellHeight = 100 and maxCellHeight = 100
         and items = "[(1, 64, 64, 30, 10), (2, 128, 32, 40, 10), (3, 16, 16, 20, 10)]",
       THEN conjunct2, THEN conjunct1] r3(1)
    by (simp add: example_row_def)
  moreover have "canAddItem exact_ops 64 64 30 10 (example_row 0) = Inr True"
    using row_holds_fewer_cells_than_limit
      [where ops = exact_ops and r = "example_row 0" and itemWidth = 64 and itemHeight = 64
         and titleWidth = 30 and titleHeight = 10,
       THEN conjunct2, THEN conjunct2, THEN conjunct1]
    by (simp add: example_row_def new_LayoutRow_def limitsAsserted_def exact_ops_def)
  moreover obtain r1 :: "(real, nat) LayoutRow" and cell :: "(real, nat) LayoutCell" where r1:
    "addItems exact_ops [(1, 64, 64, 30, 10)] (example_row 0) = Inr r1"
    "m_cells r1 \<noteq> []" "m_maxCells r1 = 0" "m_maxWidth r1 = 150"
    "new_LayoutCell exact_ops (f_add exact_ops (right exact_ops (m_bounds r1)) (m_cellMargin r1))
        (top_bounds (m_bounds r1))
        128 32 40 10 (m_titleMargin r1) (m_maxUpScale r1) (m_minCellWidth r1)
        (m_maxCellWidth r1) (m_minCellHeight r1) (m_maxCellHeight r1) = Inr cell"
    "f_add exact_ops (f_add exact_ops (bounds_width (m_bounds r1)) (m_cellMargin r1))
       (bounds_width (m_cellBounds cell)) = 205"
    using example_row_unlimited by blast
  have "canAddItem exact_ops 128 32 40 10 r1 = Inr False"
    using row_holds_fewer_cells_than_limit
      [where ops = exact_ops and r = r1 and itemWidth = 128 and itemHeight = 32
         and titleWidth = 40 and titleHeight = 10 and cell = cell,
       THEN conjunct2, THEN conjunct2, THEN conjunct2] r1
    by (simp add: exact_ops_def)
  ultimately show ?thesis
    using r3 r1 by blast
qed

end
